theory Spec2Isabelle
  imports Complex_Main "HOL-Library.Multiset" "HOL-Library.Monad_Syntax"
    "HOL-Library.Char_ord" "HOL-Library.List_Lexorder"
begin

section \<open>Data model (types.ts)\<close>

text \<open>
  The TypeScript type \<open>StreamingPlatform\<close> is a union of seven string literals and
  \<open>null\<close>; \<open>PlatformNull\<close> is that \<open>null\<close> member. An optional field
  (\<open>platform?: StreamingPlatform\<close>) is an \<open>option\<close>: \<open>None\<close> is JavaScript's
  \<open>undefined\<close>.
\<close>

datatype StreamingPlatform =
  Netflix | Prime | DisneyPlus | HBO | AppleTV | Cinema | Outros | PlatformNull

datatype PickedBy = PickedA | PickedB | PickedNull

datatype ViewMode = DASHBOARD | WATCHLIST | RATED | SEARCH | SETTINGS

datatype SortOption = DATE_DESC | DATE_ASC | YEAR_DESC | YEAR_ASC | TITLE_ASC | RATING_DESC

text \<open>
  The \<open>Movie\<close> interface. The field \<open>id\<close> is named \<open>idM\<close> here, since \<open>id\<close>
  is the identity function of HOL. Numbers are JavaScript numbers holding integers
  (time stamps, ratings, provider ids) and are modelled as \<open>int\<close>. A string is the
  list of the bytes of its UTF-8 encoding.
\<close>

record Movie =
  idM :: string
  tmdbId :: "int option"
  title :: string
  year :: string
  genre :: "string list"
  description :: string
  imageUrl :: string
  isWatched :: bool
  rating :: "int option"
  userReview :: "string option"
  addedAt :: int
  watchedAt :: "int option"
  platform :: "StreamingPlatform option"
  pickedBy :: "PickedBy option"
  tags :: "string list option"

text \<open>
  \<open>ChallengeRecord\<close> is imported by App.tsx from types.ts, whose declaration of it is
  not among the sources; its fields are those of the object literal that
  \<open>handleRateMovie\<close> builds (\<open>id\<close> is \<open>idC\<close> here).
\<close>

record ChallengeRecord =
  idC :: string
  movieId :: string
  movieTitle :: string
  posterPath :: string
  completedAt :: int
  ratingGiven :: int

datatype ToastType = ToastSuccess | ToastError | ToastInfo

text \<open>
  The notification texts of App.tsx are Portuguese string literals; each constructor
  stands for one literal (accents dropped in this list):
  \<^item> \<open>MsgMovieRemoved\<close>: "Filme removido."
  \<^item> \<open>MsgChallengeCompleted\<close>: "Desafio Concluido!" (after a trophy sign)
  \<^item> \<open>MsgRatingSaved\<close>: "Avaliacao salva!"
  \<^item> \<open>MsgNeedMoreMovies\<close>: "Adicione mais filmes para batalhar!"
  \<^item> \<open>MsgEmptyList\<close>: "Lista vazia!"
  \<^item> \<open>MsgChallengeStarted\<close>: "Desafio iniciado!"
  \<^item> \<open>MsgBackupSaved\<close>: "Backup salvo!"
  \<^item> \<open>MsgDataRestored\<close>: "Dados restaurados!"
  \<^item> \<open>MsgImportError\<close>: "Erro ao importar."
\<close>

datatype ToastText =
  MsgMovieRemoved | MsgChallengeCompleted | MsgRatingSaved | MsgNeedMoreMovies
  | MsgEmptyList | MsgChallengeStarted | MsgBackupSaved | MsgDataRestored | MsgImportError

record ToastMessage =
  idT :: string
  typeT :: ToastType
  message :: ToastText

text \<open>
  The React state of the \<open>App\<close> component that the modelled handlers read or write.
  Each \<open>useState\<close> cell is a field; a handler is a function from the state before the
  event to the state after it.
\<close>

record App =
  currentView :: ViewMode
  movies :: "Movie list"
  activeChallengeId :: "string option"
  challengeHistory :: "ChallengeRecord list"
  randomMovie :: "Movie option"
  battleMovies :: "(Movie \<times> Movie) option"
  toasts :: "ToastMessage list"

section \<open>Randomness\<close>

text \<open>
  \<open>Math.random()\<close> returns a number \<open>r\<close> with \<open>0 \<le> r < 1\<close>. The type \<open>rnd\<close> is that
  range (over the reals: the rounding of the floating-point product is not modelled).
  \<open>random_index r n\<close> is \<open>Math.floor(Math.random() * n)\<close> for the draw \<open>r\<close>, and
  \<open>rnd_of a b\<close> is the draw \<open>a / b\<close>, for writing concrete draws.
\<close>

typedef rnd = "{r :: real. 0 \<le> r \<and> r < 1}"
  by (rule exI [of _ 0]) simp

setup_lifting type_definition_rnd

lift_definition rnd_of :: "nat \<Rightarrow> nat \<Rightarrow> rnd" is
  "\<lambda>a b. if a < b then real a / real b else 0"
  by simp

definition random_index :: "rnd \<Rightarrow> nat \<Rightarrow> nat" where
  "random_index r n = nat \<lfloor>Rep_rnd r * real n\<rfloor>"

section \<open>Handlers of App.tsx\<close>

definition addToast :: "string \<Rightarrow> ToastType \<Rightarrow> ToastText \<Rightarrow> App \<Rightarrow> App" where
  "addToast uuid ty msg s =
     s\<lparr>toasts := toasts s @ [\<lparr>idT = uuid, typeT = ty, message = msg\<rparr>]\<rparr>"

text \<open>
  \<open>removeMovie\<close>: \<open>confirmed\<close> is the answer of the \<open>confirm\<close> dialog, \<open>uuid\<close> the value
  of \<open>crypto.randomUUID()\<close> for the notification.
\<close>

definition removeMovie :: "bool \<Rightarrow> string \<Rightarrow> string \<Rightarrow> App \<Rightarrow> App" where
  "removeMovie confirmed uuid i s =
     (if confirmed then
        addToast uuid ToastInfo MsgMovieRemoved
          (s\<lparr>movies := filter (\<lambda>m. idM m \<noteq> i) (movies s),
             activeChallengeId :=
               (if activeChallengeId s = Some i then None else activeChallengeId s)\<rparr>)
      else s)"

text \<open>
  \<open>handleRateMovie\<close>: \<open>recId\<close> and \<open>toastId\<close> are the two values of
  \<open>crypto.randomUUID()\<close>, \<open>completedNow\<close> and \<open>watchedNow\<close> the values of \<open>Date.now()\<close>
  for the challenge record and for the entry.
\<close>

definition handleRateMovie ::
  "string \<Rightarrow> int \<Rightarrow> int \<Rightarrow> string \<Rightarrow> string \<Rightarrow> int \<Rightarrow> string \<Rightarrow> App \<Rightarrow> App" where
  "handleRateMovie recId completedNow watchedNow toastId i r review s =
     (let challengeWon = (activeChallengeId s = Some i);
          s1 = (if challengeWon then
                  (case find (\<lambda>m. idM m = i) (movies s) of
                     Some movie \<Rightarrow>
                       s\<lparr>challengeHistory :=
                           \<lparr>idC = recId, movieId = idM movie, movieTitle = title movie,
                            posterPath = imageUrl movie, completedAt = completedNow,
                            ratingGiven = r\<rparr> # challengeHistory s\<rparr>
                   | None \<Rightarrow> s)\<lparr>activeChallengeId := None\<rparr>
                else s);
          s2 = s1\<lparr>movies :=
                 map (\<lambda>m. if idM m = i
                           then m\<lparr>isWatched := True, rating := Some r,
                                  userReview := Some review, watchedAt := Some watchedNow\<rparr>
                           else m) (movies s1)\<rparr>;
          s3 = (if challengeWon then addToast toastId ToastSuccess MsgChallengeCompleted s2
                else addToast toastId ToastSuccess MsgRatingSaved s2)
      in s3\<lparr>currentView := RATED\<rparr>)"

text \<open>\<open>startChallenge\<close>: \<open>r\<close> is the draw of \<open>Math.random()\<close>.\<close>

definition startChallenge :: "rnd \<Rightarrow> string \<Rightarrow> App \<Rightarrow> App" where
  "startChallenge r uuid s =
     (let candidates = filter (\<lambda>m. \<not> isWatched m) (movies s) in
      if length candidates = 0 then addToast uuid ToastError MsgEmptyList s
      else
        let challenge = candidates ! random_index r (length candidates) in
        addToast uuid ToastInfo MsgChallengeStarted
          (s\<lparr>activeChallengeId := Some (idM challenge)\<rparr>))"

section \<open>Backup documents (JSON)\<close>

text \<open>
  \<open>exportData\<close> writes \<open>JSON.stringify({ movies, challenges: challengeHistory })\<close> to a
  file and \<open>importData\<close> reads \<open>JSON.parse\<close> of a file. The document is modelled as the
  JSON value between the two; that \<open>JSON.parse\<close> gives back the value
  \<open>JSON.stringify\<close> wrote is the contract of the JSON library and is not modelled. An
  object is the list of its keys and values.
\<close>

datatype json =
  JNull | JBool bool | JNum int | JStr string | JArr "json list" | JObj "(string \<times> json) list"

text \<open>
  Property access \<open>j.k\<close> on a value other than \<open>null\<close>: \<open>None\<close> is \<open>undefined\<close>, which
  is what an array, a number, a string or a boolean of a parsed document gives for the
  keys \<open>movies\<close> and \<open>challenges\<close>. \<open>truthy\<close> is JavaScript's conversion to boolean
  and \<open>js_or a b\<close> is \<open>a || b\<close>.
\<close>

definition get_prop :: "json \<Rightarrow> string \<Rightarrow> json option" where
  "get_prop j k = (case j of JObj fs \<Rightarrow> map_of fs k | _ \<Rightarrow> None)"

definition truthy :: "json option \<Rightarrow> bool" where
  "truthy v = (case v of
       None \<Rightarrow> False
     | Some JNull \<Rightarrow> False
     | Some (JBool b) \<Rightarrow> b
     | Some (JNum n) \<Rightarrow> n \<noteq> 0
     | Some (JStr s) \<Rightarrow> s \<noteq> []
     | Some (JArr _) \<Rightarrow> True
     | Some (JObj _) \<Rightarrow> True)"

definition js_or :: "json option \<Rightarrow> json \<Rightarrow> json" where
  "js_or a b = (case a of None \<Rightarrow> b | Some v \<Rightarrow> if truthy (Some v) then v else b)"

definition isArray :: "json \<Rightarrow> bool" where
  "isArray j = (case j of JArr _ \<Rightarrow> True | _ \<Rightarrow> False)"

text \<open>
  What \<open>JSON.stringify\<close> writes for an entry and for a challenge record: the fields in
  the order of the object literal, a field whose value is \<open>undefined\<close> left out
  (\<open>json_field\<close>).
\<close>

definition json_field :: "string \<Rightarrow> json option \<Rightarrow> (string \<times> json) list" where
  "json_field k v = (case v of None \<Rightarrow> [] | Some j \<Rightarrow> [(k, j)])"

definition StreamingPlatform_json :: "StreamingPlatform \<Rightarrow> json" where
  "StreamingPlatform_json p = (case p of
       Netflix \<Rightarrow> JStr ''Netflix'' | Prime \<Rightarrow> JStr ''Prime'' | DisneyPlus \<Rightarrow> JStr ''Disney+''
     | HBO \<Rightarrow> JStr ''HBO'' | AppleTV \<Rightarrow> JStr ''AppleTV'' | Cinema \<Rightarrow> JStr ''Cinema''
     | Outros \<Rightarrow> JStr ''Outros'' | PlatformNull \<Rightarrow> JNull)"

definition PickedBy_json :: "PickedBy \<Rightarrow> json" where
  "PickedBy_json p =
     (case p of PickedA \<Rightarrow> JStr ''A'' | PickedB \<Rightarrow> JStr ''B'' | PickedNull \<Rightarrow> JNull)"

definition Movie_fields :: "Movie \<Rightarrow> (string \<times> json) list" where
  "Movie_fields m =
       [(''id'', JStr (idM m))]
     @ json_field ''tmdbId'' (map_option JNum (tmdbId m))
     @ [(''title'', JStr (title m)), (''year'', JStr (year m)),
        (''genre'', JArr (map JStr (genre m))), (''description'', JStr (description m)),
        (''imageUrl'', JStr (imageUrl m)), (''isWatched'', JBool (isWatched m))]
     @ json_field ''rating'' (map_option JNum (rating m))
     @ json_field ''userReview'' (map_option JStr (userReview m))
     @ [(''addedAt'', JNum (addedAt m))]
     @ json_field ''watchedAt'' (map_option JNum (watchedAt m))
     @ json_field ''platform'' (map_option StreamingPlatform_json (platform m))
     @ json_field ''pickedBy'' (map_option PickedBy_json (pickedBy m))
     @ json_field ''tags'' (map_option (\<lambda>ts. JArr (map JStr ts)) (tags m))"

definition Movie_json :: "Movie \<Rightarrow> json" where
  "Movie_json m = JObj (Movie_fields m)"

definition ChallengeRecord_json :: "ChallengeRecord \<Rightarrow> json" where
  "ChallengeRecord_json c = JObj
     [(''id'', JStr (idC c)), (''movieId'', JStr (movieId c)),
      (''movieTitle'', JStr (movieTitle c)), (''posterPath'', JStr (posterPath c)),
      (''completedAt'', JNum (completedAt c)), (''ratingGiven'', JNum (ratingGiven c))]"

text \<open>
  \<open>importData\<close> stores the parsed value in the state without any check
  (\<open>setMovies(json.movies || json)\<close>); TypeScript types it \<open>any\<close>. The state of the
  model is typed, so the stored value is read at the type of the state cell:
  \<open>as_array as_Movie\<close> for \<open>Movie[]\<close>, \<open>as_array as_ChallengeRecord\<close> for
  \<open>ChallengeRecord[]\<close>. The result is \<open>None\<close> for a value that is not of that type;
  the code would store such a value as it is, and the state would leave the model.
\<close>

definition as_string :: "json \<Rightarrow> string option" where
  "as_string j = (case j of JStr s \<Rightarrow> Some s | _ \<Rightarrow> None)"

definition as_number :: "json \<Rightarrow> int option" where
  "as_number j = (case j of JNum n \<Rightarrow> Some n | _ \<Rightarrow> None)"

definition as_boolean :: "json \<Rightarrow> bool option" where
  "as_boolean j = (case j of JBool b \<Rightarrow> Some b | _ \<Rightarrow> None)"

definition as_array :: "(json \<Rightarrow> 'a option) \<Rightarrow> json \<Rightarrow> 'a list option" where
  "as_array elem j = (case j of JArr js \<Rightarrow> those (map elem js) | _ \<Rightarrow> None)"

definition as_StreamingPlatform :: "json \<Rightarrow> StreamingPlatform option" where
  "as_StreamingPlatform j = (case j of
       JNull \<Rightarrow> Some PlatformNull
     | JStr s \<Rightarrow>
         if s = ''Netflix'' then Some Netflix else if s = ''Prime'' then Some Prime
         else if s = ''Disney+'' then Some DisneyPlus else if s = ''HBO'' then Some HBO
         else if s = ''AppleTV'' then Some AppleTV else if s = ''Cinema'' then Some Cinema
         else if s = ''Outros'' then Some Outros else None
     | _ \<Rightarrow> None)"

definition as_PickedBy :: "json \<Rightarrow> PickedBy option" where
  "as_PickedBy j = (case j of
       JNull \<Rightarrow> Some PickedNull
     | JStr s \<Rightarrow> if s = ''A'' then Some PickedA else if s = ''B'' then Some PickedB else None
     | _ \<Rightarrow> None)"

definition required ::
  "(string \<times> json) list \<Rightarrow> string \<Rightarrow> (json \<Rightarrow> 'a option) \<Rightarrow> 'a option" where
  "required fs k as = (case map_of fs k of None \<Rightarrow> None | Some j \<Rightarrow> as j)"

definition optional ::
  "(string \<times> json) list \<Rightarrow> string \<Rightarrow> (json \<Rightarrow> 'a option) \<Rightarrow> 'a option option" where
  "optional fs k as =
     (case map_of fs k of None \<Rightarrow> Some None | Some j \<Rightarrow> map_option Some (as j))"

definition as_Movie :: "json \<Rightarrow> Movie option" where
  "as_Movie j = (case j of
       JObj fs \<Rightarrow> do {
         i \<leftarrow> required fs ''id'' as_string;
         tm \<leftarrow> optional fs ''tmdbId'' as_number;
         ti \<leftarrow> required fs ''title'' as_string;
         y \<leftarrow> required fs ''year'' as_string;
         g \<leftarrow> required fs ''genre'' (as_array as_string);
         d \<leftarrow> required fs ''description'' as_string;
         im \<leftarrow> required fs ''imageUrl'' as_string;
         w \<leftarrow> required fs ''isWatched'' as_boolean;
         r \<leftarrow> optional fs ''rating'' as_number;
         u \<leftarrow> optional fs ''userReview'' as_string;
         a \<leftarrow> required fs ''addedAt'' as_number;
         wa \<leftarrow> optional fs ''watchedAt'' as_number;
         p \<leftarrow> optional fs ''platform'' as_StreamingPlatform;
         pb \<leftarrow> optional fs ''pickedBy'' as_PickedBy;
         tg \<leftarrow> optional fs ''tags'' (as_array as_string);
         Some \<lparr>idM = i, tmdbId = tm, title = ti, year = y, genre = g, description = d,
               imageUrl = im, isWatched = w, rating = r, userReview = u, addedAt = a,
               watchedAt = wa, platform = p, pickedBy = pb, tags = tg\<rparr>
       }
     | _ \<Rightarrow> None)"

definition as_ChallengeRecord :: "json \<Rightarrow> ChallengeRecord option" where
  "as_ChallengeRecord j = (case j of
       JObj fs \<Rightarrow> do {
         i \<leftarrow> required fs ''id'' as_string;
         mi \<leftarrow> required fs ''movieId'' as_string;
         mt \<leftarrow> required fs ''movieTitle'' as_string;
         pp \<leftarrow> required fs ''posterPath'' as_string;
         ca \<leftarrow> required fs ''completedAt'' as_number;
         rg \<leftarrow> required fs ''ratingGiven'' as_number;
         Some \<lparr>idC = i, movieId = mi, movieTitle = mt, posterPath = pp, completedAt = ca,
               ratingGiven = rg\<rparr>
       }
     | _ \<Rightarrow> None)"

text \<open>
  \<open>exportData\<close> returns the document that is downloaded, with the state after the
  notification ("Backup salvo!").
\<close>

definition exportData :: "string \<Rightarrow> App \<Rightarrow> json \<times> App" where
  "exportData uuid s =
     (JObj [(''movies'', JArr (map Movie_json (movies s))),
            (''challenges'', JArr (map ChallengeRecord_json (challengeHistory s)))],
      addToast uuid ToastSuccess MsgBackupSaved s)"

text \<open>
  \<open>importData\<close>. The input is what the file chooser and \<open>JSON.parse\<close> deliver: no file
  (the handler returns), a text that \<open>JSON.parse\<close> rejects (the exception is caught:
  "Erro ao importar."), or the parsed value. For the value \<open>null\<close>, \<open>json.movies\<close>
  throws a TypeError inside the same \<open>try\<close>. The history is replaced only under
  \<open>if (json.challenges)\<close>.
\<close>

datatype FileInput = NoFile | Unparsable | Parsed json

definition importData :: "string \<Rightarrow> FileInput \<Rightarrow> App \<Rightarrow> App option" where
  "importData uuid file s = (case file of
       NoFile \<Rightarrow> Some s
     | Unparsable \<Rightarrow> Some (addToast uuid ToastError MsgImportError s)
     | Parsed j \<Rightarrow>
         if j = JNull then Some (addToast uuid ToastError MsgImportError s)
         else if truthy (get_prop j ''movies'') \<or> isArray j then
           do {
             ms \<leftarrow> as_array as_Movie (js_or (get_prop j ''movies'') j);
             hist \<leftarrow> (case get_prop j ''challenges'' of
                        None \<Rightarrow> Some (challengeHistory s)
                      | Some c \<Rightarrow> if truthy (Some c) then as_array as_ChallengeRecord c
                                  else Some (challengeHistory s));
             Some ((addToast uuid ToastSuccess MsgDataRestored
                      (s\<lparr>movies := ms, challengeHistory := hist\<rparr>))\<lparr>currentView := DASHBOARD\<rparr>)
           }
         else Some (addToast uuid ToastError MsgImportError s))"

section \<open>Battle\<close>

text \<open>
  \<open>startBattle\<close>: \<open>r1\<close> and \<open>r2\<close> are the draws for \<open>idx1\<close> and the first \<open>idx2\<close>,
  \<open>rs\<close> the further draws of the loop \<open>while (idx1 === idx2)\<close>. \<open>resample\<close> is that
  loop; it is \<open>None\<close> when the draws supplied are used up and the two indices are
  still equal, so \<open>startBattle\<close> is \<open>None\<close> when the loop has not ended.
\<close>

fun resample :: "nat \<Rightarrow> nat \<Rightarrow> nat \<Rightarrow> rnd list \<Rightarrow> nat option" where
  "resample n idx1 idx2 [] = (if idx1 = idx2 then None else Some idx2)"
| "resample n idx1 idx2 (r # rs) =
     (if idx1 = idx2 then resample n idx1 (random_index r n) rs else Some idx2)"

definition startBattle :: "string \<Rightarrow> rnd \<Rightarrow> rnd \<Rightarrow> rnd list \<Rightarrow> App \<Rightarrow> App option" where
  "startBattle uuid r1 r2 rs s =
     (let contenders = filter (\<lambda>m. \<not> isWatched m) (movies s) in
      if length contenders < 2 then Some (addToast uuid ToastError MsgNeedMoreMovies s)
      else
        let idx1 = random_index r1 (length contenders) in
        case resample (length contenders) idx1 (random_index r2 (length contenders)) rs of
          None \<Rightarrow> None
        | Some idx2 \<Rightarrow> Some (s\<lparr>battleMovies := Some (contenders ! idx1, contenders ! idx2)\<rparr>))"

definition handleBattlePick :: "rnd \<Rightarrow> Movie \<Rightarrow> App \<Rightarrow> App" where
  "handleBattlePick r winner s = (case battleMovies s of
       None \<Rightarrow> s
     | Some (b0, b1) \<Rightarrow>
         let contenders =
               filter (\<lambda>m. \<not> isWatched m \<and> idM m \<noteq> idM winner \<and> idM m \<noteq> idM b0
                             \<and> idM m \<noteq> idM b1) (movies s)
         in if length contenders = 0
            then s\<lparr>battleMovies := None, randomMovie := Some winner\<rparr>
            else
              let nextChallenger = contenders ! random_index r (length contenders) in
              s\<lparr>battleMovies := Some (winner, nextChallenger)\<rparr>)"

text \<open>
  The battle overlay is rendered while \<open>battleMovies\<close> is set and calls
  \<open>handleBattlePick(battleMovies[0])\<close> or \<open>handleBattlePick(battleMovies[1])\<close> when a
  card is clicked. \<open>battle\<close> runs a sequence of rounds, each a clicked card and the draw
  of that round; once \<open>battleMovies\<close> is \<open>null\<close> the overlay is gone and no further
  click arrives.
\<close>

datatype Pick = PickFirst | PickSecond

fun battle :: "(Pick \<times> rnd) list \<Rightarrow> App \<Rightarrow> App" where
  "battle [] s = s"
| "battle ((p, r) # ps) s = (case battleMovies s of
       None \<Rightarrow> s
     | Some (b0, b1) \<Rightarrow>
         battle ps (handleBattlePick r (case p of PickFirst \<Rightarrow> b0 | PickSecond \<Rightarrow> b1) s))"

section \<open>Watchlist filter and sort\<close>

text \<open>
  A JavaScript number as far as the comparators need it: \<open>NaN\<close>, the two infinities,
  or a finite value, which is an integer here (years, time stamps and the results of
  \<open>localeCompare\<close>); \<open>-0\<close> and \<open>+0\<close> are one value, a sort does not tell them apart.
  \<open>round_double\<close> is the rounding of an integer to the nearest IEEE 754 double, ties to
  the even significand of 53 bits, and to an infinity from \<open>2^1024 - 2^970\<close> on.
  \<open>js_minus\<close> is the subtraction of doubles: the exact difference, rounded;
  \<open>Infinity - Infinity\<close> is \<open>NaN\<close>. \<open>number_le\<close> is \<open><=\<close> on numbers.
\<close>

datatype number = NaN | NegInf | Fin int | PosInf

function bit_length :: "int \<Rightarrow> nat" where
  "bit_length n = (if n \<le> 0 then 0 else Suc (bit_length (n div 2)))"
  by pat_completeness auto
termination
  by (relation "measure nat") auto

declare bit_length.simps [simp del]

definition round_double :: "int \<Rightarrow> number" where
  "round_double n =
     (let m = \<bar>n\<bar> in
      if m < 2 ^ 53 then Fin n
      else
        let sh = bit_length m - 53;
            q = m div 2 ^ sh;
            r = m mod 2 ^ sh;
            h = 2 ^ (sh - 1);
            q' = (if h < r \<or> (r = h \<and> odd q) then q + 1 else q);
            v = q' * 2 ^ sh
        in if 2 ^ 1024 \<le> v then (if n < 0 then NegInf else PosInf)
           else Fin (if n < 0 then - v else v))"

fun js_minus :: "number \<Rightarrow> number \<Rightarrow> number" where
  "js_minus NaN y = NaN"
| "js_minus x NaN = NaN"
| "js_minus (Fin a) (Fin b) = round_double (a - b)"
| "js_minus (Fin a) PosInf = NegInf"
| "js_minus (Fin a) NegInf = PosInf"
| "js_minus PosInf PosInf = NaN"
| "js_minus PosInf y = PosInf"
| "js_minus NegInf NegInf = NaN"
| "js_minus NegInf y = NegInf"

fun number_le :: "number \<Rightarrow> number \<Rightarrow> bool" where
  "number_le NaN y = False"
| "number_le x NaN = False"
| "number_le NegInf y = True"
| "number_le x PosInf = True"
| "number_le (Fin a) (Fin b) = (a \<le> b)"
| "number_le x y = False"

text \<open>
  \<open>Array.prototype.sort\<close> with a comparator. ECMAScript reads the comparator's result
  through \<open>SortCompare\<close>, where \<open>NaN\<close> counts as \<open>+0\<close>, and uses only whether it is
  below, equal to or above zero. The sort is stable, so for a consistent comparator the
  result is the one sorted arrangement that keeps equal elements in their order, which
  is what insertion from the right computes (\<open>js_sort\<close>). For a comparator that is not
  consistent ECMAScript leaves the order to the implementation; \<open>js_sort\<close> is then only
  one of the possible results.
\<close>

definition SortCompare :: "('a \<Rightarrow> 'a \<Rightarrow> number) \<Rightarrow> 'a \<Rightarrow> 'a \<Rightarrow> number" where
  "SortCompare comparefn x y = (case comparefn x y of NaN \<Rightarrow> Fin 0 | v \<Rightarrow> v)"

fun insert_sorted :: "('a \<Rightarrow> 'a \<Rightarrow> number) \<Rightarrow> 'a \<Rightarrow> 'a list \<Rightarrow> 'a list" where
  "insert_sorted comparefn x [] = [x]"
| "insert_sorted comparefn x (y # ys) =
     (if number_le (SortCompare comparefn x y) (Fin 0) then x # y # ys
      else y # insert_sorted comparefn x ys)"

definition js_sort :: "('a \<Rightarrow> 'a \<Rightarrow> number) \<Rightarrow> 'a list \<Rightarrow> 'a list" where
  "js_sort comparefn xs = foldr (insert_sorted comparefn) xs []"

text \<open>
  The state cell \<open>streamingFilter\<close> has type \<open>StreamingPlatform | 'ALL'\<close>; \<open>genreFilter\<close>
  is a string, with \<open>'ALL'\<close> for no filter. \<open>localeCompare\<close> and \<open>parseInt\<close> are
  built-ins of the JavaScript engine and not part of the sources; both are parameters:
  the locale-aware comparison of two strings, and the function from a string to the
  number that \<open>parseInt(string)\<close> returns. What is proved of \<open>sortedWatchlist\<close> holds
  for every such pair of functions.
\<close>

datatype StreamingFilter = FilterALL | FilterPlatform StreamingPlatform

definition rawWatchList :: "Movie list \<Rightarrow> Movie list" where
  "rawWatchList ms = filter (\<lambda>m. \<not> isWatched m) ms"

definition watchlistCompare ::
  "(string \<Rightarrow> string \<Rightarrow> int) \<Rightarrow> (string \<Rightarrow> number) \<Rightarrow> SortOption \<Rightarrow> Movie \<Rightarrow> Movie
     \<Rightarrow> number" where
  "watchlistCompare localeCompare parseInt watchlistSort a b = (case watchlistSort of
       TITLE_ASC \<Rightarrow> Fin (localeCompare (title a) (title b))
     | YEAR_DESC \<Rightarrow> js_minus (parseInt (year b)) (parseInt (year a))
     | YEAR_ASC \<Rightarrow> js_minus (parseInt (year a)) (parseInt (year b))
     | DATE_ASC \<Rightarrow> js_minus (Fin (addedAt a)) (Fin (addedAt b))
     | _ \<Rightarrow> js_minus (Fin (addedAt b)) (Fin (addedAt a)))"

definition sortedWatchlist ::
  "(string \<Rightarrow> string \<Rightarrow> int) \<Rightarrow> (string \<Rightarrow> number) \<Rightarrow> Movie list \<Rightarrow> SortOption
     \<Rightarrow> StreamingFilter \<Rightarrow> string \<Rightarrow> Movie list" where
  "sortedWatchlist localeCompare parseInt ms watchlistSort streamingFilter genreFilter =
     (let filtered = rawWatchList ms;
          filtered1 = (case streamingFilter of
                         FilterALL \<Rightarrow> filtered
                       | FilterPlatform p \<Rightarrow> filter (\<lambda>m. platform m = Some p) filtered);
          filtered2 = (if genreFilter \<noteq> ''ALL''
                       then filter (\<lambda>m. genreFilter \<in> set (genre m)) filtered1
                       else filtered1)
      in js_sort (watchlistCompare localeCompare parseInt watchlistSort) filtered2)"

text \<open>
  For evaluating the sort on concrete years: \<open>parseInt\<close> with no radix as ECMAScript
  defines it, on UTF-8 text. Leading white space is skipped (\<open>whiteSpaces\<close>: the
  encodings of U+0009 to U+000D, U+0020, U+00A0, U+1680, U+2000 to U+200A, U+2028,
  U+2029, U+202F, U+205F, U+3000 and U+FEFF), then an optional sign, then the prefix
  \<open>0x\<close> or \<open>0X\<close> selects radix 16, then the longest run of digits of the radix is
  read; the result is \<open>NaN\<close> if that run is empty and otherwise the double nearest to
  the signed value. \<open>digitValue\<close> is 36 for a character that is not a digit of any
  radix. ECMAScript allows an implementation to read the decimal digits after the
  twentieth as zeros; this function reads them all.
\<close>

definition whiteSpaces :: "string list" where
  "whiteSpaces =
     [[CHR 0x09], [CHR 0x0A], [CHR 0x0B], [CHR 0x0C], [CHR 0x0D], [CHR 0x20],
      [CHR 0xC2, CHR 0xA0],
      [CHR 0xE1, CHR 0x9A, CHR 0x80],
      [CHR 0xE2, CHR 0x80, CHR 0x80], [CHR 0xE2, CHR 0x80, CHR 0x81],
      [CHR 0xE2, CHR 0x80, CHR 0x82], [CHR 0xE2, CHR 0x80, CHR 0x83],
      [CHR 0xE2, CHR 0x80, CHR 0x84], [CHR 0xE2, CHR 0x80, CHR 0x85],
      [CHR 0xE2, CHR 0x80, CHR 0x86], [CHR 0xE2, CHR 0x80, CHR 0x87],
      [CHR 0xE2, CHR 0x80, CHR 0x88], [CHR 0xE2, CHR 0x80, CHR 0x89],
      [CHR 0xE2, CHR 0x80, CHR 0x8A],
      [CHR 0xE2, CHR 0x80, CHR 0xA8], [CHR 0xE2, CHR 0x80, CHR 0xA9],
      [CHR 0xE2, CHR 0x80, CHR 0xAF],
      [CHR 0xE2, CHR 0x81, CHR 0x9F],
      [CHR 0xE3, CHR 0x80, CHR 0x80],
      [CHR 0xEF, CHR 0xBB, CHR 0xBF]]"

fun trimStart :: "string \<Rightarrow> string" where
  "trimStart [] = []"
| "trimStart (c # s) =
     (if [c] \<in> set whiteSpaces then trimStart s
      else if take 2 (c # s) \<in> set whiteSpaces then trimStart (drop 1 s)
      else if take 3 (c # s) \<in> set whiteSpaces then trimStart (drop 2 s)
      else c # s)"

definition digitValue :: "char \<Rightarrow> int" where
  "digitValue c =
     (let n = (of_char c :: int) in
      if 48 \<le> n \<and> n \<le> 57 then n - 48
      else if 97 \<le> n \<and> n \<le> 122 then n - 87
      else if 65 \<le> n \<and> n \<le> 90 then n - 55
      else 36)"

definition parseInt_utf8 :: "string \<Rightarrow> number" where
  "parseInt_utf8 str =
     (let S = trimStart str;
          sign = (case S of c # _ \<Rightarrow> if c = CHR ''-'' then - 1 else 1 | [] \<Rightarrow> (1 :: int));
          S1 = (case S of c # rest \<Rightarrow> if c = CHR ''+'' \<or> c = CHR ''-'' then rest else S
                | [] \<Rightarrow> S);
          hex = (take 2 S1 = ''0x'' \<or> take 2 S1 = ''0X'');
          R = (if hex then 16 else 10);
          S2 = (if hex then drop 2 S1 else S1);
          Z = takeWhile (\<lambda>c. digitValue c < R) S2
      in if Z = [] then NaN
         else round_double (sign * foldl (\<lambda>acc c. acc * R + digitValue c) 0 Z))"

section \<open>Recommendations (the TMDB service)\<close>

text \<open>
  An item of the provider's \<open>results\<close> array, with the fields the service reads.
  \<open>None\<close> is a field that is missing or \<open>null\<close>. The result type is \<open>SearchResult\<close> of
  types.ts; its fields carry the suffix \<open>R\<close>, the names without it being fields of
  \<open>Movie\<close> and \<open>ChallengeRecord\<close>.
\<close>

record TmdbItem =
  item_id :: int
  item_title :: string
  release_date :: "string option"
  genre_ids :: "int list option"
  overview :: "string option"
  poster_path :: "string option"

record SearchResult =
  tmdbIdR :: int
  titleR :: string
  yearR :: string
  genreR :: "string list"
  descriptionR :: string
  posterPathR :: "string option"

text \<open>
  The table \<open>GENRES\<close>. The names are Portuguese; a letter with an accent is written as
  its two UTF-8 bytes.
\<close>

definition GENRES :: "(int \<times> string) list" where
  "GENRES =
     [(28, ''A'' @ [CHR 0xC3, CHR 0xA7, CHR 0xC3, CHR 0xA3] @ ''o''),
      (12, ''Aventura''),
      (16, ''Anima'' @ [CHR 0xC3, CHR 0xA7, CHR 0xC3, CHR 0xA3] @ ''o''),
      (35, ''Com'' @ [CHR 0xC3, CHR 0xA9] @ ''dia''),
      (80, ''Crime''),
      (99, ''Document'' @ [CHR 0xC3, CHR 0xA1] @ ''rio''),
      (18, ''Drama''),
      (10751, ''Fam'' @ [CHR 0xC3, CHR 0xAD] @ ''lia''),
      (14, ''Fantasia''),
      (36, ''Hist'' @ [CHR 0xC3, CHR 0xB3] @ ''ria''),
      (27, ''Terror''),
      (10402, ''M'' @ [CHR 0xC3, CHR 0xBA] @ ''sica''),
      (9648, ''Mist'' @ [CHR 0xC3, CHR 0xA9] @ ''rio''),
      (10749, ''Romance''),
      (878, ''Fic'' @ [CHR 0xC3, CHR 0xA7, CHR 0xC3, CHR 0xA3] @ ''o''),
      (10770, ''TV Movie''),
      (53, ''Thriller''),
      (10752, ''Guerra''),
      (37, ''Faroeste'')]"

definition getGenreNames :: "int list \<Rightarrow> string list" where
  "getGenreNames ids =
     take 3 (List.map_filter
               (\<lambda>i. case map_of GENRES i of
                      None \<Rightarrow> None
                    | Some name \<Rightarrow> if name = [] then None else Some name) ids)"

text \<open>
  \<open>mapResults\<close>. \<open>existingIds.has(item.id)\<close> is membership of the item's id among the
  \<open>tmdbId\<close> fields of the entries; \<open>item.poster_path\<close> as a condition is true for a
  string that is not empty. The default description is "Sugestao baseada nos seus
  gostos." (with a tilde on the a).
\<close>

definition toSearchResult :: "TmdbItem \<Rightarrow> SearchResult" where
  "toSearchResult item =
     \<lparr>tmdbIdR = item_id item,
      titleR = item_title item,
      yearR = (case release_date item of
                 None \<Rightarrow> ''N/A''
               | Some d \<Rightarrow> if d = [] then ''N/A'' else takeWhile (\<lambda>c. c \<noteq> CHR ''-'') d),
      genreR = getGenreNames (case genre_ids item of None \<Rightarrow> [] | Some ids \<Rightarrow> ids),
      descriptionR = (case overview item of
                        None \<Rightarrow> ''Sugest'' @ [CHR 0xC3, CHR 0xA3] @ ''o baseada nos seus gostos.''
                      | Some t \<Rightarrow>
                          if t = []
                          then ''Sugest'' @ [CHR 0xC3, CHR 0xA3] @ ''o baseada nos seus gostos.''
                          else t),
      posterPathR = poster_path item\<rparr>"

definition mapResults :: "TmdbItem list \<Rightarrow> Movie list \<Rightarrow> SearchResult list" where
  "mapResults results existingMovies =
     map toSearchResult
       (take 6
          (filter (\<lambda>item. Some (item_id item) \<notin> set (map tmdbId existingMovies)
                         \<and> (case poster_path item of None \<Rightarrow> False | Some p \<Rightarrow> p \<noteq> []))
             results))"

text \<open>
  \<open>getRecommendations\<close>. \<open>fetch\<close> is the provider: for a request it gives the
  \<open>results\<close> array of the response, or \<open>None\<close> when the request or the decoding of the
  response fails or the response has no \<open>results\<close> (an exception, caught: the result
  is the empty list). \<open>r\<close> is the draw for the seed entry.
\<close>

datatype Request = Popular | Recommendations "int option"

definition getRecommendations ::
  "(Request \<Rightarrow> TmdbItem list option) \<Rightarrow> rnd \<Rightarrow> Movie list \<Rightarrow> Movie list \<Rightarrow> string
     \<Rightarrow> SearchResult list" where
  "getRecommendations fetch r watchedMovies allMovies apiKey =
     (if apiKey = [] then []
      else
        let hasTmdbId = (\<lambda>m. case tmdbId m of None \<Rightarrow> False | Some t \<Rightarrow> t \<noteq> 0);
            goodMovies =
              filter (\<lambda>m. (case rating m of None \<Rightarrow> 0 | Some x \<Rightarrow> x) \<ge> 4 \<and> hasTmdbId m)
                watchedMovies;
            sourceList = (if length goodMovies > 0 then goodMovies
                          else filter hasTmdbId watchedMovies)
        in if length sourceList = 0 then
             (case fetch Popular of
                None \<Rightarrow> []
              | Some results \<Rightarrow> mapResults results allMovies)
           else
             let seedMovie = sourceList ! random_index r (length sourceList) in
             (case fetch (Recommendations (tmdbId seedMovie)) of
                None \<Rightarrow> []
              | Some results \<Rightarrow> mapResults results allMovies))"

section \<open>The rating dialog (RatingModal)\<close>

text \<open>
  The component state (\<open>rating\<close>, \<open>review\<close>, \<open>hoverRating\<close>, with the suffix \<open>S\<close>),
  whether the dialog is mounted and open, and the calls of the \<open>onSave\<close> property made
  so far. An event names the star button by its position in the rendered list
  \<open>[1, 2, 3, 4, 5]\<close>; there is no button at any other position. The submit button is
  disabled while \<open>rating === 0\<close>, so the form is not submitted then. \<open>onClose\<close> makes
  the parent unmount the dialog.
\<close>

record RatingModal =
  ratingS :: int
  reviewS :: string
  hoverRatingS :: int
  isOpenS :: bool
  onSaveCalls :: "(string \<times> int \<times> string) list"

datatype ModalEvent =
  StarClick nat | StarMouseEnter nat | StarMouseLeave nat | ReviewChange string
  | SubmitClick | CancelClick

definition stars :: "int list" where
  "stars = [1, 2, 3, 4, 5]"

definition RatingModal_init :: RatingModal where
  "RatingModal_init =
     \<lparr>ratingS = 0, reviewS = [], hoverRatingS = 0, isOpenS = True, onSaveCalls = []\<rparr>"

definition RatingModal_event :: "Movie \<Rightarrow> RatingModal \<Rightarrow> ModalEvent \<Rightarrow> RatingModal" where
  "RatingModal_event movie st ev =
     (if \<not> isOpenS st then st
      else case ev of
        StarClick k \<Rightarrow> if k < length stars then st\<lparr>ratingS := stars ! k\<rparr> else st
      | StarMouseEnter k \<Rightarrow> if k < length stars then st\<lparr>hoverRatingS := stars ! k\<rparr> else st
      | StarMouseLeave k \<Rightarrow> if k < length stars then st\<lparr>hoverRatingS := 0\<rparr> else st
      | ReviewChange t \<Rightarrow> st\<lparr>reviewS := t\<rparr>
      | SubmitClick \<Rightarrow>
          if ratingS st = 0 then st
          else st\<lparr>onSaveCalls := onSaveCalls st @ [(idM movie, ratingS st, reviewS st)],
                  isOpenS := False\<rparr>
      | CancelClick \<Rightarrow> st\<lparr>isOpenS := False\<rparr>)"

definition RatingModal_run :: "Movie \<Rightarrow> ModalEvent list \<Rightarrow> RatingModal" where
  "RatingModal_run movie evs = foldl (RatingModal_event movie) RatingModal_init evs"

text \<open>
  The invariant of the dialog used below: the rating is between 0 and 5, and every call
  of \<open>onSave\<close> made so far carries the id of the dialog's entry and a rating between 1
  and 5.
\<close>

definition modal_ok :: "Movie \<Rightarrow> RatingModal \<Rightarrow> bool" where
  "modal_ok movie st =
     (0 \<le> ratingS st \<and> ratingS st \<le> 5
      \<and> (\<forall>c \<in> set (onSaveCalls st).
            fst c = idM movie \<and> 1 \<le> fst (snd c) \<and> fst (snd c) \<le> 5))"

section \<open>Example data\<close>

text \<open>
  Concrete entries and states on which the theorems below are evaluated: \<open>exMovie i y w\<close>
  is an entry with id and title \<open>i\<close>, year \<open>y\<close> and watched flag \<open>w\<close>, as
  \<open>addToWatchlist\<close> creates it (no rating, platform and pickedBy \<open>null\<close>, no tags).
\<close>

definition exMovie :: "string \<Rightarrow> string \<Rightarrow> bool \<Rightarrow> Movie" where
  "exMovie i y w =
     \<lparr>idM = i, tmdbId = None, title = i, year = y, genre = [], description = [],
      imageUrl = [], isWatched = w, rating = None, userReview = None, addedAt = 0,
      watchedAt = None, platform = Some PlatformNull, pickedBy = Some PickedNull,
      tags = Some []\<rparr>"

definition exApp :: "Movie list \<Rightarrow> string option \<Rightarrow> ChallengeRecord list \<Rightarrow> App" where
  "exApp ms act hist =
     \<lparr>currentView = DASHBOARD, movies = ms, activeChallengeId = act,
      challengeHistory = hist, randomMovie = None, battleMovies = None, toasts = []\<rparr>"

definition exRecord :: "string \<Rightarrow> int \<Rightarrow> ChallengeRecord" where
  "exRecord i r =
     \<lparr>idC = ''rec-'' @ i, movieId = i, movieTitle = i, posterPath = [], completedAt = 0,
      ratingGiven = r\<rparr>"

definition exLocaleCompare :: "string \<Rightarrow> string \<Rightarrow> int" where
  "exLocaleCompare a b = (if a < b then - 1 else if a = b then 0 else 1)"

definition exItem :: "int \<Rightarrow> string option \<Rightarrow> TmdbItem" where
  "exItem i poster =
     \<lparr>item_id = i, item_title = ''T'', release_date = Some ''2020-05-17'',
      genre_ids = Some [18, 35], overview = None, poster_path = poster\<rparr>"

definition exFetch :: "Request \<Rightarrow> TmdbItem list option" where
  "exFetch req =
     Some [exItem 7 (Some ''/p7.jpg''), exItem 8 None, exItem 9 (Some ''/p9.jpg'')]"

section \<open>Facts about random draws\<close>

lemma random_index_less: "0 < n \<Longrightarrow> random_index r n < n"
proof -
  assume n: "0 < n"
  have r: "0 \<le> Rep_rnd r" "Rep_rnd r < 1" using Rep_rnd [of r] by auto
  have "Rep_rnd r * real n < real n" using r n by simp
  then have "\<lfloor>Rep_rnd r * real n\<rfloor> < int n" by (simp add: floor_less_iff)
  moreover have "0 \<le> \<lfloor>Rep_rnd r * real n\<rfloor>" using r by simp
  ultimately show ?thesis unfolding random_index_def by linarith
qed

lemma random_index_rnd_of:
  "random_index (rnd_of a b) n = nat \<lfloor>(if a < b then real a / real b else 0) * real n\<rfloor>"
  by (simp add: random_index_def rnd_of.rep_eq)

section \<open>Starting a challenge\<close>

lemma startChallenge_empty:
  assumes "filter (\<lambda>m. \<not> isWatched m) (movies s) = []"
  shows "startChallenge r uuid s = addToast uuid ToastError MsgEmptyList s"
  using assms by (simp add: startChallenge_def)

lemma startChallenge_nonempty:
  assumes "filter (\<lambda>m. \<not> isWatched m) (movies s) \<noteq> []"
  shows "startChallenge r uuid s =
         addToast uuid ToastInfo MsgChallengeStarted
           (s\<lparr>activeChallengeId :=
                Some (idM (filter (\<lambda>m. \<not> isWatched m) (movies s)
                            ! random_index r (length (filter (\<lambda>m. \<not> isWatched m) (movies s)))))\<rparr>)"
  using assms by (simp add: startChallenge_def Let_def)

text \<open>
  Claim C6. When the not-watched pool is not empty, \<open>startChallenge\<close> sets the active
  challenge to the id of an entry of that pool, which is an entry of the list that is not
  watched. When the pool is empty it adds an error notification ("Lista vazia!") and
  leaves the entry list, the active challenge and the challenge history as they were.
\<close>

theorem startChallenge_draws_from_pool:
  "(filter (\<lambda>m. \<not> isWatched m) (movies s) \<noteq> [] \<longrightarrow>
      (\<exists>m \<in> set (filter (\<lambda>m. \<not> isWatched m) (movies s)).
         m \<in> set (movies s) \<and> \<not> isWatched m \<and>
         activeChallengeId (startChallenge r uuid s) = Some (idM m)))
   \<and> (filter (\<lambda>m. \<not> isWatched m) (movies s) = [] \<longrightarrow>
      movies (startChallenge r uuid s) = movies s \<and>
      activeChallengeId (startChallenge r uuid s) = activeChallengeId s \<and>
      challengeHistory (startChallenge r uuid s) = challengeHistory s \<and>
      toasts (startChallenge r uuid s) =
        toasts s @ [\<lparr>idT = uuid, typeT = ToastError, message = MsgEmptyList\<rparr>])"
proof (intro conjI impI)
  let ?pool = "filter (\<lambda>m. \<not> isWatched m) (movies s)"
  assume ne: "?pool \<noteq> []"
  then have "random_index r (length ?pool) < length ?pool"
    by (simp add: random_index_less)
  then have mem: "?pool ! random_index r (length ?pool) \<in> set ?pool"
    by (rule nth_mem)
  have act: "activeChallengeId (startChallenge r uuid s)
             = Some (idM (?pool ! random_index r (length ?pool)))"
    by (simp add: startChallenge_nonempty [OF ne] addToast_def)
  from mem have "?pool ! random_index r (length ?pool) \<in> set (movies s)"
    and "\<not> isWatched (?pool ! random_index r (length ?pool))"
    by simp_all
  with mem act
  show "\<exists>m \<in> set ?pool. m \<in> set (movies s) \<and> \<not> isWatched m \<and>
          activeChallengeId (startChallenge r uuid s) = Some (idM m)"
    by blast
next
  assume e: "filter (\<lambda>m. \<not> isWatched m) (movies s) = []"
  show "movies (startChallenge r uuid s) = movies s"
    by (simp add: startChallenge_empty [OF e] addToast_def)
  show "activeChallengeId (startChallenge r uuid s) = activeChallengeId s"
    by (simp add: startChallenge_empty [OF e] addToast_def)
  show "challengeHistory (startChallenge r uuid s) = challengeHistory s"
    by (simp add: startChallenge_empty [OF e] addToast_def)
  show "toasts (startChallenge r uuid s) =
        toasts s @ [\<lparr>idT = uuid, typeT = ToastError, message = MsgEmptyList\<rparr>]"
    by (simp add: startChallenge_empty [OF e] addToast_def)
qed

theorem startChallenge_draws_from_pool_witness:
  "filter (\<lambda>m. \<not> isWatched m)
     (movies (exApp [exMovie ''a'' ''1999'' True, exMovie ''b'' ''2001'' False] None [])) \<noteq> []
   \<and> activeChallengeId
        (startChallenge (rnd_of 1 2) ''t''
           (exApp [exMovie ''a'' ''1999'' True, exMovie ''b'' ''2001'' False] None []))
       = Some ''b''
   \<and> filter (\<lambda>m. \<not> isWatched m) (movies (exApp [exMovie ''a'' ''1999'' True] None [])) = []
   \<and> activeChallengeId (startChallenge (rnd_of 1 2) ''t'' (exApp [exMovie ''a'' ''1999'' True] None []))
       = None"
  using startChallenge_draws_from_pool
          [of "exApp [exMovie ''a'' ''1999'' True, exMovie ''b'' ''2001'' False] None []"
              "rnd_of 1 2" "''t''"]
        startChallenge_draws_from_pool
          [of "exApp [exMovie ''a'' ''1999'' True] None []" "rnd_of 1 2" "''t''"]
  by (simp add: exApp_def exMovie_def)

section \<open>Completing a challenge\<close>

lemma find_idM:
  assumes "find (\<lambda>m. idM m = i) ms = Some mv"
  shows "idM mv = i" and "mv \<in> set ms"
  using assms by (auto simp: find_Some_iff)

lemma handleRateMovie_movies:
  "movies (handleRateMovie recId completedNow watchedNow toastId i r review s) =
   map (\<lambda>m. if idM m = i
             then m\<lparr>isWatched := True, rating := Some r, userReview := Some review,
                    watchedAt := Some watchedNow\<rparr>
             else m) (movies s)"
  by (simp add: handleRateMovie_def Let_def addToast_def split: option.split)

lemma handleRateMovie_won:
  assumes "activeChallengeId s = Some i" and "find (\<lambda>m. idM m = i) (movies s) = Some mv"
  shows "challengeHistory (handleRateMovie recId completedNow watchedNow toastId i r review s) =
         \<lparr>idC = recId, movieId = idM mv, movieTitle = title mv, posterPath = imageUrl mv,
          completedAt = completedNow, ratingGiven = r\<rparr> # challengeHistory s"
    and "activeChallengeId (handleRateMovie recId completedNow watchedNow toastId i r review s)
         = None"
  using assms by (simp_all add: handleRateMovie_def Let_def addToast_def)

text \<open>
  Claim C2. In a state whose active challenge is \<open>i\<close> and whose list has an entry with
  id \<open>i\<close>, \<open>handleRateMovie\<close> on \<open>i\<close> puts exactly one new record in front of the
  challenge history, with \<open>ratingGiven\<close> the supplied rating and \<open>movieId = i\<close> (and the
  title and image of the first entry with that id); the records that were there follow
  unchanged. The active challenge is absent afterwards. The entry list keeps its length
  and order; an entry with id \<open>i\<close> becomes watched with the supplied rating and review,
  every other entry is unchanged.
\<close>

theorem handleRateMovie_completes_challenge:
  assumes "activeChallengeId s = Some i" and "\<exists>m \<in> set (movies s). idM m = i"
  shows "(\<exists>rec. challengeHistory
                  (handleRateMovie recId completedNow watchedNow toastId i r review s)
                = rec # challengeHistory s
              \<and> ratingGiven rec = r \<and> movieId rec = i \<and> idC rec = recId
              \<and> completedAt rec = completedNow
              \<and> (\<exists>m \<in> set (movies s). idM m = i \<and> movieTitle rec = title m
                     \<and> posterPath rec = imageUrl m))
       \<and> activeChallengeId (handleRateMovie recId completedNow watchedNow toastId i r review s)
           = None
       \<and> length (movies (handleRateMovie recId completedNow watchedNow toastId i r review s))
           = length (movies s)
       \<and> (\<forall>j < length (movies s).
             movies (handleRateMovie recId completedNow watchedNow toastId i r review s) ! j =
             (if idM (movies s ! j) = i
              then (movies s ! j)\<lparr>isWatched := True, rating := Some r,
                     userReview := Some review, watchedAt := Some watchedNow\<rparr>
              else movies s ! j))"
proof -
  from assms(2) obtain mv where f: "find (\<lambda>m. idM m = i) (movies s) = Some mv"
    by (cases "find (\<lambda>m. idM m = i) (movies s)") (auto simp: find_None_iff)
  note w = handleRateMovie_won [OF assms(1) f, of recId completedNow watchedNow toastId r review]
  have "idM mv = i" and "mv \<in> set (movies s)"
    using find_idM [OF f] by simp_all
  then have hist: "\<exists>rec. challengeHistory
                  (handleRateMovie recId completedNow watchedNow toastId i r review s)
                = rec # challengeHistory s
              \<and> ratingGiven rec = r \<and> movieId rec = i \<and> idC rec = recId
              \<and> completedAt rec = completedNow
              \<and> (\<exists>m \<in> set (movies s). idM m = i \<and> movieTitle rec = title m
                     \<and> posterPath rec = imageUrl m)"
    using w(1) by auto
  have len: "length (movies (handleRateMovie recId completedNow watchedNow toastId i r review s))
             = length (movies s)"
    by (simp add: handleRateMovie_movies)
  have nth: "\<forall>j < length (movies s).
             movies (handleRateMovie recId completedNow watchedNow toastId i r review s) ! j =
             (if idM (movies s ! j) = i
              then (movies s ! j)\<lparr>isWatched := True, rating := Some r,
                     userReview := Some review, watchedAt := Some watchedNow\<rparr>
              else movies s ! j)"
    by (simp add: handleRateMovie_movies)
  from hist w(2) len nth show ?thesis by blast
qed

theorem handleRateMovie_completes_challenge_witness:
  "activeChallengeId (exApp [exMovie ''a'' ''1999'' False, exMovie ''b'' ''2001'' False]
                        (Some ''a'') []) = Some ''a''
   \<and> (\<exists>m \<in> set (movies (exApp [exMovie ''a'' ''1999'' False, exMovie ''b'' ''2001'' False]
                                (Some ''a'') [])). idM m = ''a'')
   \<and> map ratingGiven (challengeHistory
        (handleRateMovie ''r'' 10 11 ''t'' ''a'' 4 ''ok''
           (exApp [exMovie ''a'' ''1999'' False, exMovie ''b'' ''2001'' False] (Some ''a'') [])))
       = [4]
   \<and> activeChallengeId
        (handleRateMovie ''r'' 10 11 ''t'' ''a'' 4 ''ok''
           (exApp [exMovie ''a'' ''1999'' False, exMovie ''b'' ''2001'' False] (Some ''a'') []))
       = None
   \<and> map rating (movies
        (handleRateMovie ''r'' 10 11 ''t'' ''a'' 4 ''ok''
           (exApp [exMovie ''a'' ''1999'' False, exMovie ''b'' ''2001'' False] (Some ''a'') [])))
       = [Some 4, None]"
proof -
  let ?s = "exApp [exMovie ''a'' ''1999'' False, exMovie ''b'' ''2001'' False] (Some ''a'') []"
  have a: "activeChallengeId ?s = Some ''a''"
    by (simp add: exApp_def)
  have b: "\<exists>m \<in> set (movies ?s). idM m = ''a''"
    by (simp add: exApp_def exMovie_def)
  from handleRateMovie_completes_challenge [OF a b, of "''r''" 10 11 "''t''" 4 "''ok''"] a b
  show ?thesis
    by (simp add: exApp_def exMovie_def handleRateMovie_def Let_def addToast_def)
qed

section \<open>Export and import\<close>

lemma those_map_Some: "those (map Some xs) = Some xs"
  by (induction xs) simp_all

lemma those_map_inv:
  assumes "\<And>x. f (g x) = Some x"
  shows "those (map f (map g xs)) = Some xs"
  by (induction xs) (simp_all add: assms)

lemma as_strings_inv: "as_array as_string (JArr (map JStr xs)) = Some xs"
  by (simp add: as_array_def o_def as_string_def those_map_Some)

lemma as_StreamingPlatform_inv: "as_StreamingPlatform (StreamingPlatform_json p) = Some p"
  by (cases p) (simp_all add: as_StreamingPlatform_def StreamingPlatform_json_def)

lemma as_PickedBy_inv: "as_PickedBy (PickedBy_json p) = Some p"
  by (cases p) (simp_all add: as_PickedBy_def PickedBy_json_def)

lemma map_of_append_apply:
  "map_of (xs @ ys) k = (case map_of xs k of None \<Rightarrow> map_of ys k | Some v \<Rightarrow> Some v)"
  by (simp add: map_add_def)

lemma map_of_json_field: "map_of (json_field k v) k' = (if k' = k then v else None)"
  by (cases v) (simp_all add: json_field_def)

lemmas Movie_lookup = Movie_fields_def map_of_json_field map_of_append_apply

lemma field_id: "required (Movie_fields m) ''id'' as_string = Some (idM m)"
  by (simp add: required_def Movie_lookup as_string_def del: map_of_append)

lemma field_tmdbId: "optional (Movie_fields m) ''tmdbId'' as_number = Some (tmdbId m)"
  by (cases "tmdbId m")
     (simp_all add: optional_def Movie_lookup as_number_def del: map_of_append)

lemma field_title: "required (Movie_fields m) ''title'' as_string = Some (title m)"
  by (simp add: required_def Movie_lookup as_string_def del: map_of_append)

lemma field_year: "required (Movie_fields m) ''year'' as_string = Some (year m)"
  by (simp add: required_def Movie_lookup as_string_def del: map_of_append)

lemma field_genre: "required (Movie_fields m) ''genre'' (as_array as_string) = Some (genre m)"
  by (simp add: required_def Movie_lookup as_strings_inv del: map_of_append)

lemma field_description:
  "required (Movie_fields m) ''description'' as_string = Some (description m)"
  by (simp add: required_def Movie_lookup as_string_def del: map_of_append)

lemma field_imageUrl: "required (Movie_fields m) ''imageUrl'' as_string = Some (imageUrl m)"
  by (simp add: required_def Movie_lookup as_string_def del: map_of_append)

lemma field_isWatched: "required (Movie_fields m) ''isWatched'' as_boolean = Some (isWatched m)"
  by (simp add: required_def Movie_lookup as_boolean_def del: map_of_append)

lemma field_rating: "optional (Movie_fields m) ''rating'' as_number = Some (rating m)"
  by (cases "rating m")
     (simp_all add: optional_def Movie_lookup as_number_def del: map_of_append)

lemma field_userReview: "optional (Movie_fields m) ''userReview'' as_string = Some (userReview m)"
  by (cases "userReview m")
     (simp_all add: optional_def Movie_lookup as_string_def del: map_of_append)

lemma field_addedAt: "required (Movie_fields m) ''addedAt'' as_number = Some (addedAt m)"
  by (simp add: required_def Movie_lookup as_number_def del: map_of_append)

lemma field_watchedAt: "optional (Movie_fields m) ''watchedAt'' as_number = Some (watchedAt m)"
  by (cases "watchedAt m")
     (simp_all add: optional_def Movie_lookup as_number_def del: map_of_append)

lemma field_platform:
  "optional (Movie_fields m) ''platform'' as_StreamingPlatform = Some (platform m)"
  by (cases "platform m")
     (simp_all add: optional_def Movie_lookup as_StreamingPlatform_inv del: map_of_append)

lemma field_pickedBy: "optional (Movie_fields m) ''pickedBy'' as_PickedBy = Some (pickedBy m)"
  by (cases "pickedBy m")
     (simp_all add: optional_def Movie_lookup as_PickedBy_inv del: map_of_append)

lemma field_tags: "optional (Movie_fields m) ''tags'' (as_array as_string) = Some (tags m)"
  by (cases "tags m")
     (simp_all add: optional_def Movie_lookup as_strings_inv del: map_of_append)

lemma as_Movie_inv: "as_Movie (Movie_json m) = Some m"
  by (simp add: as_Movie_def Movie_json_def field_id field_tmdbId field_title field_year
        field_genre field_description field_imageUrl field_isWatched field_rating
        field_userReview field_addedAt field_watchedAt field_platform field_pickedBy
        field_tags)

lemma as_ChallengeRecord_inv: "as_ChallengeRecord (ChallengeRecord_json c) = Some c"
  by (simp add: as_ChallengeRecord_def ChallengeRecord_json_def required_def
        as_string_def as_number_def)

lemma as_Movies_inv: "as_array as_Movie (JArr (map Movie_json ms)) = Some ms"
  by (simp add: as_array_def those_map_inv [of as_Movie Movie_json, OF as_Movie_inv]
        del: map_map)

lemma as_ChallengeRecords_inv:
  "as_array as_ChallengeRecord (JArr (map ChallengeRecord_json cs)) = Some cs"
  by (simp add: as_array_def
        those_map_inv [of as_ChallengeRecord ChallengeRecord_json, OF as_ChallengeRecord_inv]
        del: map_map)

lemma importData_bare_array:
  "importData uuid (Parsed (JArr (map Movie_json ms))) s =
   Some ((addToast uuid ToastSuccess MsgDataRestored (s\<lparr>movies := ms\<rparr>))
           \<lparr>currentView := DASHBOARD\<rparr>)"
  by (simp add: importData_def get_prop_def truthy_def isArray_def js_or_def as_Movies_inv)

lemma importData_exported:
  "importData uuid (Parsed (fst (exportData uuid' s))) s' =
   Some ((addToast uuid ToastSuccess MsgDataRestored
            (s'\<lparr>movies := movies s, challengeHistory := challengeHistory s\<rparr>))
           \<lparr>currentView := DASHBOARD\<rparr>)"
  by (simp add: importData_def exportData_def get_prop_def truthy_def isArray_def js_or_def
        as_Movies_inv as_ChallengeRecords_inv)

text \<open>
  Claim C4, as amended. Importing a bare array of entries replaces the entry list with
  exactly that array and leaves the challenge history as it was: \<open>json.challenges\<close> is
  \<open>undefined\<close> for an array, so \<open>setChallengeHistory\<close> is not called.
\<close>

theorem importData_bare_array_keeps_history:
  "map_option movies (importData uuid (Parsed (JArr (map Movie_json ms))) s) = Some ms
   \<and> map_option challengeHistory (importData uuid (Parsed (JArr (map Movie_json ms))) s)
       = Some (challengeHistory s)"
  by (simp add: importData_bare_array addToast_def)

text \<open>
  Claim C4 as stated fails: with one record in the history before the import, the
  history after importing a bare array is that same record, not the empty list.
\<close>

theorem importData_bare_array_counterexample:
  "map_option challengeHistory
     (importData ''t'' (Parsed (JArr (map Movie_json [exMovie ''b'' ''2001'' False])))
        (exApp [exMovie ''a'' ''1999'' True] None [exRecord ''a'' 5]))
   \<noteq> Some []"
  using importData_bare_array
          [of "''t''" "[exMovie ''b'' ''2001'' False]"
              "exApp [exMovie ''a'' ''1999'' True] None [exRecord ''a'' 5]"]
  by (simp add: addToast_def exApp_def)

text \<open>
  Claim C5. Importing the document that \<open>exportData\<close> produced in a state \<open>s\<close>, into any
  state \<open>s'\<close>, succeeds and gives the entry list and the challenge history of \<open>s\<close>.
\<close>

theorem export_import_roundtrip:
  "map_option movies (importData uuid (Parsed (fst (exportData uuid' s))) s') = Some (movies s)
   \<and> map_option challengeHistory (importData uuid (Parsed (fst (exportData uuid' s))) s')
       = Some (challengeHistory s)"
  by (simp add: importData_exported addToast_def)

section \<open>Removing an entry\<close>

lemma removeMovie_confirmed:
  "removeMovie True uuid i s =
   addToast uuid ToastInfo MsgMovieRemoved
     (s\<lparr>movies := filter (\<lambda>m. idM m \<noteq> i) (movies s),
        activeChallengeId := (if activeChallengeId s = Some i then None else activeChallengeId s)\<rparr>)"
  by (simp add: removeMovie_def)

text \<open>
  Claim C1, as amended. After a confirmed \<open>removeMovie i\<close> no entry has id \<open>i\<close>; the
  active challenge is absent if it was \<open>i\<close> and is unchanged otherwise; and if, before
  the removal, the active challenge (when present) was the id of an entry of the list,
  then it still is afterwards.
\<close>

theorem removeMovie_clears_challenge:
  "find (\<lambda>m. idM m = i) (movies (removeMovie True uuid i s)) = None
   \<and> (activeChallengeId s = Some i \<longrightarrow> activeChallengeId (removeMovie True uuid i s) = None)
   \<and> (activeChallengeId s \<noteq> Some i \<longrightarrow>
        activeChallengeId (removeMovie True uuid i s) = activeChallengeId s)
   \<and> ((\<forall>a. activeChallengeId s = Some a \<longrightarrow> (\<exists>m \<in> set (movies s). idM m = a)) \<longrightarrow>
        (\<forall>a. activeChallengeId (removeMovie True uuid i s) = Some a \<longrightarrow>
             (\<exists>m \<in> set (movies (removeMovie True uuid i s)). idM m = a)))"
proof (intro conjI impI allI)
  show "find (\<lambda>m. idM m = i) (movies (removeMovie True uuid i s)) = None"
    by (simp add: removeMovie_confirmed addToast_def find_None_iff)
next
  assume "activeChallengeId s = Some i"
  then show "activeChallengeId (removeMovie True uuid i s) = None"
    by (simp add: removeMovie_confirmed addToast_def)
next
  assume "activeChallengeId s \<noteq> Some i"
  then show "activeChallengeId (removeMovie True uuid i s) = activeChallengeId s"
    by (simp add: removeMovie_confirmed addToast_def)
next
  fix a
  assume live: "\<forall>a. activeChallengeId s = Some a \<longrightarrow> (\<exists>m \<in> set (movies s). idM m = a)"
    and act: "activeChallengeId (removeMovie True uuid i s) = Some a"
  from act have "activeChallengeId s = Some a" and "a \<noteq> i"
    by (auto simp: removeMovie_confirmed addToast_def split: if_splits)
  with live obtain m where "m \<in> set (movies s)" and "idM m = a"
    by blast
  with \<open>a \<noteq> i\<close> have "m \<in> set (movies (removeMovie True uuid i s))"
    by (simp add: removeMovie_confirmed addToast_def)
  with \<open>idM m = a\<close> show "\<exists>m \<in> set (movies (removeMovie True uuid i s)). idM m = a"
    by blast
qed

theorem removeMovie_clears_challenge_witness:
  "activeChallengeId (exApp [exMovie ''a'' ''1999'' False, exMovie ''b'' ''2001'' False]
                        (Some ''a'') []) = Some ''a''
   \<and> activeChallengeId
        (removeMovie True ''t'' ''a''
           (exApp [exMovie ''a'' ''1999'' False, exMovie ''b'' ''2001'' False] (Some ''a'') []))
       = None
   \<and> activeChallengeId (exApp [exMovie ''a'' ''1999'' False, exMovie ''b'' ''2001'' False]
                        (Some ''a'') []) \<noteq> Some ''b''
   \<and> activeChallengeId
        (removeMovie True ''t'' ''b''
           (exApp [exMovie ''a'' ''1999'' False, exMovie ''b'' ''2001'' False] (Some ''a'') []))
       = Some ''a''
   \<and> map idM (movies
        (removeMovie True ''t'' ''b''
           (exApp [exMovie ''a'' ''1999'' False, exMovie ''b'' ''2001'' False] (Some ''a'') [])))
       = [''a'']"
  using removeMovie_clears_challenge
          [of "''a''" "''t''"
              "exApp [exMovie ''a'' ''1999'' False, exMovie ''b'' ''2001'' False] (Some ''a'') []"]
        removeMovie_clears_challenge
          [of "''b''" "''t''"
              "exApp [exMovie ''a'' ''1999'' False, exMovie ''b'' ''2001'' False] (Some ''a'') []"]
  by (simp add: exApp_def exMovie_def removeMovie_confirmed addToast_def)

lemma importData_keeps_active_challenge:
  "map_option activeChallengeId
     (importData ''t'' (Parsed (JArr (map Movie_json [exMovie ''b'' ''2001'' False])))
        (exApp [exMovie ''a'' ''1999'' False] (Some ''a'') [])) = Some (Some ''a'')
   \<and> map_option movies
     (importData ''t'' (Parsed (JArr (map Movie_json [exMovie ''b'' ''2001'' False])))
        (exApp [exMovie ''a'' ''1999'' False] (Some ''a'') [])) = Some [exMovie ''b'' ''2001'' False]"
  using importData_bare_array
          [of "''t''" "[exMovie ''b'' ''2001'' False]"
              "exApp [exMovie ''a'' ''1999'' False] (Some ''a'') []"]
  by (simp add: addToast_def exApp_def)

text \<open>
  Claim C1 as stated fails in its last part, which it asserts for every state. A state
  whose active challenge is not the id of any entry arises when a backup is imported
  while a challenge is active, since \<open>importData\<close> does not touch
  \<open>activeChallengeId\<close> (\<open>importData_keeps_active_challenge\<close>). Removing the entry
  \<open>b\<close> from the list \<open>[b]\<close> with active challenge \<open>a\<close> leaves the active
  challenge \<open>a\<close> and an empty list.
\<close>

theorem removeMovie_stale_challenge_counterexample:
  "activeChallengeId
     (removeMovie True ''t'' ''b'' (exApp [exMovie ''b'' ''2001'' False] (Some ''a'') []))
   = Some ''a''
   \<and> movies (removeMovie True ''t'' ''b'' (exApp [exMovie ''b'' ''2001'' False] (Some ''a'') []))
     = []"
  by (simp add: removeMovie_confirmed addToast_def exApp_def exMovie_def)

section \<open>Watchlist filter and sort\<close>

lemma mset_insert_sorted: "mset (insert_sorted c x xs) = add_mset x (mset xs)"
  by (induction xs) simp_all

lemma mset_js_sort: "mset (js_sort c xs) = mset xs"
  by (induction xs) (simp_all add: js_sort_def mset_insert_sorted)

lemma set_js_sort: "set (js_sort c xs) = set xs"
  using mset_js_sort [of c xs] by (metis set_mset_mset)

lemma set_insert_sorted: "set (insert_sorted c x xs) = insert x (set xs)"
  using mset_insert_sorted [of c x xs] by (metis set_mset_mset set_mset_add_mset_insert)

lemma sortedWatchlist_eq:
  "sortedWatchlist lc pI ms opt f g =
   js_sort (watchlistCompare lc pI opt)
     (filter (\<lambda>m. \<not> isWatched m
                  \<and> (case f of FilterALL \<Rightarrow> True | FilterPlatform p \<Rightarrow> platform m = Some p)
                  \<and> (g = ''ALL'' \<or> g \<in> set (genre m))) ms)"
  by (cases f)
     (auto simp: sortedWatchlist_def rawWatchList_def Let_def
           intro!: arg_cong [where f = "js_sort (watchlistCompare lc pI opt)"] filter_cong)

text \<open>
  Claim C8. With a platform filter \<open>P\<close> and a genre filter \<open>G\<close> other than \<open>'ALL'\<close>,
  the sorted watchlist holds exactly (as a multiset) the entries that are not watched,
  have platform \<open>P\<close> and have \<open>G\<close> in their genre list. With \<open>'ALL'\<close> for the platform
  only the genre condition remains, and with \<open>'ALL'\<close> for the genre only the platform
  condition.
\<close>

theorem sortedWatchlist_filters:
  assumes "G \<noteq> ''ALL''"
  shows "mset (sortedWatchlist lc pI ms opt (FilterPlatform P) G)
           = mset (filter (\<lambda>m. \<not> isWatched m \<and> platform m = Some P \<and> G \<in> set (genre m)) ms)
       \<and> mset (sortedWatchlist lc pI ms opt FilterALL G)
           = mset (filter (\<lambda>m. \<not> isWatched m \<and> G \<in> set (genre m)) ms)
       \<and> mset (sortedWatchlist lc pI ms opt (FilterPlatform P) ''ALL'')
           = mset (filter (\<lambda>m. \<not> isWatched m \<and> platform m = Some P) ms)"
  using assms by (simp add: sortedWatchlist_eq mset_js_sort)

theorem sortedWatchlist_filters_witness:
  "''Drama'' \<noteq> ''ALL''
   \<and> mset (sortedWatchlist exLocaleCompare parseInt_utf8
             [(exMovie ''a'' ''1999'' False)\<lparr>genre := [''Drama'', ''Comedy''],
                                              platform := Some Netflix\<rparr>,
              (exMovie ''b'' ''2001'' False)\<lparr>genre := [''Action''], platform := Some Netflix\<rparr>]
             DATE_DESC (FilterPlatform Netflix) ''Drama'')
     = {#(exMovie ''a'' ''1999'' False)\<lparr>genre := [''Drama'', ''Comedy''],
                                          platform := Some Netflix\<rparr>#}"
  using sortedWatchlist_filters
          [of "''Drama''" exLocaleCompare parseInt_utf8
              "[(exMovie ''a'' ''1999'' False)\<lparr>genre := [''Drama'', ''Comedy''],
                                                platform := Some Netflix\<rparr>,
                (exMovie ''b'' ''2001'' False)\<lparr>genre := [''Action''],
                                                platform := Some Netflix\<rparr>]"
              DATE_DESC Netflix]
  by (simp add: exMovie_def)

lemma sorted_insert_sorted:
  assumes trans: "\<And>a b d. a \<in> A \<Longrightarrow> b \<in> A \<Longrightarrow> d \<in> A \<Longrightarrow> R a b \<Longrightarrow> R b d \<Longrightarrow> R a d"
    and total: "\<And>a b. a \<in> A \<Longrightarrow> b \<in> A \<Longrightarrow> R a b \<or> R b a"
    and cmp: "\<And>a b. a \<in> A \<Longrightarrow> b \<in> A \<Longrightarrow> number_le (SortCompare c a b) (Fin 0) = R a b"
    and x: "x \<in> A" and ys: "set ys \<subseteq> A" and sorted: "sorted_wrt R ys"
  shows "sorted_wrt R (insert_sorted c x ys)"
  using ys sorted
proof (induction ys)
  case Nil
  then show ?case by simp
next
  case (Cons y ys)
  then have y: "y \<in> A" and sub: "set ys \<subseteq> A" and tail: "sorted_wrt R ys"
    and head: "\<forall>z \<in> set ys. R y z"
    by simp_all
  show ?case
  proof (cases "number_le (SortCompare c x y) (Fin 0)")
    case True
    then have xy: "R x y" using cmp [OF x y] by simp
    have "\<forall>z \<in> set ys. R x z"
    proof
      fix z assume z: "z \<in> set ys"
      then have "z \<in> A" using sub by blast
      moreover have "R y z" using head z by blast
      ultimately show "R x z" using trans [OF x y _ xy] by blast
    qed
    with True xy head tail show ?thesis by simp
  next
    case False
    then have "\<not> R x y" using cmp [OF x y] by simp
    then have yx: "R y x" using total [OF x y] by blast
    have "sorted_wrt R (insert_sorted c x ys)" using Cons.IH [OF sub tail] .
    moreover have "\<forall>z \<in> set (insert_sorted c x ys). R y z"
      using yx head by (simp add: set_insert_sorted)
    ultimately show ?thesis using False by simp
  qed
qed

lemma sorted_js_sort:
  assumes trans: "\<And>a b d. a \<in> A \<Longrightarrow> b \<in> A \<Longrightarrow> d \<in> A \<Longrightarrow> R a b \<Longrightarrow> R b d \<Longrightarrow> R a d"
    and total: "\<And>a b. a \<in> A \<Longrightarrow> b \<in> A \<Longrightarrow> R a b \<or> R b a"
    and cmp: "\<And>a b. a \<in> A \<Longrightarrow> b \<in> A \<Longrightarrow> number_le (SortCompare c a b) (Fin 0) = R a b"
    and xs: "set xs \<subseteq> A"
  shows "sorted_wrt R (js_sort c xs)"
  using xs
proof (induction xs)
  case Nil
  then show ?case by (simp add: js_sort_def)
next
  case (Cons x xs)
  then have x: "x \<in> A" and sub: "set xs \<subseteq> A" by simp_all
  have "sorted_wrt R (js_sort c xs)" using Cons.IH [OF sub] .
  moreover have "set (js_sort c xs) \<subseteq> A" using sub by (simp add: set_js_sort)
  ultimately have "sorted_wrt R (insert_sorted c x (js_sort c xs))"
    using sorted_insert_sorted [of A R c x "js_sort c xs"] trans total cmp x by blast
  then show ?case by (simp add: js_sort_def)
qed

lemma bit_length_lower: "0 < n \<Longrightarrow> 2 ^ (bit_length n - 1) \<le> n"
proof (induction n rule: bit_length.induct)
  case (1 n)
  show ?case
  proof (cases "n div 2 \<le> 0")
    case True
    then have "bit_length (n div 2) = 0"
      by (subst bit_length.simps) simp
    with "1.prems" show ?thesis
      by (simp add: bit_length.simps [of n])
  next
    case False
    then have pos: "0 < n div 2" by simp
    from "1.prems" have "\<not> n \<le> 0" by simp
    from "1.IH" [OF this pos] have ih: "2 ^ (bit_length (n div 2) - 1) \<le> n div 2" .
    from pos have "bit_length (n div 2) = Suc (bit_length (n div 2) - 1)"
      by (simp add: bit_length.simps [of "n div 2"])
    then have "(2::int) ^ bit_length (n div 2) = 2 * 2 ^ (bit_length (n div 2) - 1)"
      by (metis power_Suc)
    also have "\<dots> \<le> 2 * (n div 2)" using ih by simp
    also have "\<dots> \<le> n" by simp
    finally show ?thesis using "1.prems" by (simp add: bit_length.simps [of n])
  qed
qed

lemma round_double_le_zero: "number_le (round_double n) (Fin 0) = (n \<le> 0)"
proof (cases "\<bar>n\<bar> < 2 ^ 53")
  case True
  then show ?thesis by (simp add: round_double_def)
next
  case False
  let ?m = "\<bar>n\<bar>"
  let ?sh = "bit_length ?m - 53"
  let ?q = "?m div 2 ^ ?sh"
  let ?q' = "if 2 ^ (?sh - 1) < ?m mod 2 ^ ?sh \<or> (?m mod 2 ^ ?sh = 2 ^ (?sh - 1) \<and> odd ?q)
             then ?q + 1 else ?q"
  let ?v = "?q' * 2 ^ ?sh"
  from False have mpos: "0 < ?m" and n0: "n \<noteq> 0" by auto
  have "(2::int) ^ ?sh \<le> 2 ^ (bit_length ?m - 1)"
    by (rule power_increasing) simp_all
  also have "\<dots> \<le> ?m" using bit_length_lower [OF mpos] .
  finally have "0 < ?q" by (simp add: pos_imp_zdiv_pos_iff)
  then have "0 < ?q'" by simp
  then have vpos: "0 < ?v" by simp
  have rd: "round_double n =
        (if 2 ^ 1024 \<le> ?v then (if n < 0 then NegInf else PosInf)
         else Fin (if n < 0 then - ?v else ?v))"
    using False by (simp add: round_double_def Let_def)
  show ?thesis
  proof (cases "n < 0")
    case True
    with vpos show ?thesis unfolding rd by simp
  next
    case False
    with n0 have "0 < n" by simp
    with vpos show ?thesis unfolding rd by simp
  qed
qed

lemma round_double_not_NaN: "round_double n \<noteq> NaN"
  by (simp add: round_double_def Let_def)

lemma number_le_trans: "number_le x y \<Longrightarrow> number_le y z \<Longrightarrow> number_le x z"
  by (cases x; cases y; cases z) simp_all

lemma number_le_total: "x \<noteq> NaN \<Longrightarrow> y \<noteq> NaN \<Longrightarrow> number_le x y \<or> number_le y x"
  by (cases x; cases y) auto

lemma js_minus_le_zero:
  assumes "x \<noteq> NaN" and "y \<noteq> NaN"
  shows "number_le (case js_minus x y of NaN \<Rightarrow> Fin 0 | v \<Rightarrow> v) (Fin 0) = number_le x y"
proof (cases x)
  case (Fin a)
  show ?thesis
  proof (cases y)
    case (Fin b)
    have "number_le (case round_double (a - b) of NaN \<Rightarrow> Fin 0 | v \<Rightarrow> v) (Fin 0)
          = number_le (round_double (a - b)) (Fin 0)"
      using round_double_not_NaN [of "a - b"] by (cases "round_double (a - b)") simp_all
    with \<open>x = Fin a\<close> Fin show ?thesis by (simp add: round_double_le_zero)
  qed (use assms \<open>x = Fin a\<close> in simp_all)
qed (use assms in \<open>cases y; simp\<close>)+

lemma js_minus_NaN: "x = NaN \<or> y = NaN \<Longrightarrow> js_minus x y = NaN"
  by (cases x; cases y) auto

lemma SortCompare_year_desc:
  assumes "pI (year a) \<noteq> NaN" and "pI (year b) \<noteq> NaN"
  shows "number_le (SortCompare (watchlistCompare lc pI YEAR_DESC) a b) (Fin 0)
         = number_le (pI (year b)) (pI (year a))"
  using js_minus_le_zero [OF assms(2) assms(1)]
  by (simp add: SortCompare_def watchlistCompare_def)

lemma SortCompare_year_asc:
  assumes "pI (year a) \<noteq> NaN" and "pI (year b) \<noteq> NaN"
  shows "number_le (SortCompare (watchlistCompare lc pI YEAR_ASC) a b) (Fin 0)
         = number_le (pI (year a)) (pI (year b))"
  using js_minus_le_zero [OF assms(1) assms(2)]
  by (simp add: SortCompare_def watchlistCompare_def)

lemma SortCompare_year_NaN:
  assumes "pI (year a) = NaN \<or> pI (year b) = NaN"
  shows "SortCompare (watchlistCompare lc pI YEAR_DESC) a b = Fin 0"
    and "SortCompare (watchlistCompare lc pI YEAR_ASC) a b = Fin 0"
proof -
  have "js_minus (pI (year b)) (pI (year a)) = NaN"
    using assms by (intro js_minus_NaN) blast
  then show "SortCompare (watchlistCompare lc pI YEAR_DESC) a b = Fin 0"
    by (simp add: SortCompare_def watchlistCompare_def)
  have "js_minus (pI (year a)) (pI (year b)) = NaN"
    using assms by (intro js_minus_NaN) blast
  then show "SortCompare (watchlistCompare lc pI YEAR_ASC) a b = Fin 0"
    by (simp add: SortCompare_def watchlistCompare_def)
qed

lemma js_sort_year_desc:
  assumes "\<forall>m \<in> set xs. pI (year m) \<noteq> NaN"
  shows "sorted_wrt (\<lambda>a b. number_le (pI (year b)) (pI (year a)))
           (js_sort (watchlistCompare lc pI YEAR_DESC) xs)"
proof (rule sorted_js_sort [where A = "set xs"])
  fix a b assume "a \<in> set xs" and "b \<in> set xs"
  with assms have ab: "pI (year a) \<noteq> NaN" "pI (year b) \<noteq> NaN" by simp_all
  show "number_le (SortCompare (watchlistCompare lc pI YEAR_DESC) a b) (Fin 0)
        = number_le (pI (year b)) (pI (year a))"
    by (rule SortCompare_year_desc [OF ab])
  show "number_le (pI (year b)) (pI (year a)) \<or> number_le (pI (year a)) (pI (year b))"
    by (rule number_le_total [OF ab(2) ab(1)])
next
  fix a b d :: Movie
  assume "number_le (pI (year b)) (pI (year a))" and "number_le (pI (year d)) (pI (year b))"
  then show "number_le (pI (year d)) (pI (year a))"
    by (rule number_le_trans [rotated])
qed simp

lemma js_sort_year_asc:
  assumes "\<forall>m \<in> set xs. pI (year m) \<noteq> NaN"
  shows "sorted_wrt (\<lambda>a b. number_le (pI (year a)) (pI (year b)))
           (js_sort (watchlistCompare lc pI YEAR_ASC) xs)"
proof (rule sorted_js_sort [where A = "set xs"])
  fix a b assume "a \<in> set xs" and "b \<in> set xs"
  with assms have ab: "pI (year a) \<noteq> NaN" "pI (year b) \<noteq> NaN" by simp_all
  show "number_le (SortCompare (watchlistCompare lc pI YEAR_ASC) a b) (Fin 0)
        = number_le (pI (year a)) (pI (year b))"
    by (rule SortCompare_year_asc [OF ab])
  show "number_le (pI (year a)) (pI (year b)) \<or> number_le (pI (year b)) (pI (year a))"
    by (rule number_le_total [OF ab])
next
  fix a b d :: Movie
  assume "number_le (pI (year a)) (pI (year b))" and "number_le (pI (year b)) (pI (year d))"
  then show "number_le (pI (year a)) (pI (year d))"
    by (rule number_le_trans)
qed simp

lemmas parseInt_utf8_eval =
  parseInt_utf8_def whiteSpaces_def digitValue_def round_double_def Let_def

lemma parseInt_2000: "parseInt_utf8 ''2000'' = Fin 2000"
  by (simp add: parseInt_utf8_eval)

lemma parseInt_1990: "parseInt_utf8 ''1990'' = Fin 1990"
  by (simp add: parseInt_utf8_eval)

lemma parseInt_NA: "parseInt_utf8 ''N/A'' = NaN"
  by (simp add: parseInt_utf8_eval)

text \<open>
  Two values of \<open>parseInt_utf8\<close> beyond plain digits: a no-break space (U+00A0) in
  front of the year is skipped, and a year above \<open>2^53\<close> is rounded to a double.
\<close>

lemma parseInt_nbsp: "parseInt_utf8 ([CHR 0xC2, CHR 0xA0] @ ''2000'') = Fin 2000"
  by (simp add: parseInt_utf8_eval)

lemma bit_length_2_53: "bit_length 9007199254740993 = 54"
  by (simp add: bit_length.simps)

lemma parseInt_above_2_53: "parseInt_utf8 ''9007199254740993'' = Fin 9007199254740992"
  by (simp add: parseInt_utf8_eval bit_length_2_53)

lemma parseInt_2_53: "parseInt_utf8 ''9007199254740992'' = Fin 9007199254740992"
  by (simp add: parseInt_utf8_eval bit_length.simps)

text \<open>
  On these years the sort does what the engine does: the year behind the no-break
  space is read as 2000 and comes first in descending order, and two years that round
  to the same double compare as equal and keep their order.
\<close>

lemma year_sort_nbsp:
  "sortedWatchlist exLocaleCompare parseInt_utf8
     [exMovie ''x'' ''1990'' False, exMovie ''y'' ([CHR 0xC2, CHR 0xA0] @ ''2000'') False]
     YEAR_DESC FilterALL ''ALL''
   = [exMovie ''y'' ([CHR 0xC2, CHR 0xA0] @ ''2000'') False, exMovie ''x'' ''1990'' False]"
  using parseInt_nbsp
  by (simp add: sortedWatchlist_def rawWatchList_def js_sort_def SortCompare_def
        watchlistCompare_def round_double_def exMovie_def parseInt_1990)

lemma year_sort_above_2_53:
  "sortedWatchlist exLocaleCompare parseInt_utf8
     [exMovie ''x'' ''9007199254740992'' False, exMovie ''y'' ''9007199254740993'' False]
     YEAR_DESC FilterALL ''ALL''
   = [exMovie ''x'' ''9007199254740992'' False, exMovie ''y'' ''9007199254740993'' False]"
  by (simp add: sortedWatchlist_def rawWatchList_def js_sort_def SortCompare_def
        watchlistCompare_def round_double_def exMovie_def parseInt_2_53 parseInt_above_2_53)

text \<open>
  Claim C7, as amended. Under the two year sorts, when \<open>parseInt\<close> of the year string
  of every entry of the filtered list is a number (not \<open>NaN\<close>), the sorted watchlist is
  ordered by that number, from the greatest down under \<open>YEAR_DESC\<close> and from the least
  up under \<open>YEAR_ASC\<close>, and it holds the same entries under both. An entry whose year
  does not parse is given no place of its own: the comparator is \<open>NaN\<close> for it against
  every entry, which the sort reads as zero, that is as "equal".
\<close>

theorem year_sort_orders_parsable_years:
  "((\<forall>m \<in> set (sortedWatchlist lc pI ms YEAR_DESC f g). pI (year m) \<noteq> NaN) \<longrightarrow>
      sorted_wrt (\<lambda>a b. number_le (pI (year b)) (pI (year a)))
        (sortedWatchlist lc pI ms YEAR_DESC f g))
   \<and> ((\<forall>m \<in> set (sortedWatchlist lc pI ms YEAR_ASC f g). pI (year m) \<noteq> NaN) \<longrightarrow>
      sorted_wrt (\<lambda>a b. number_le (pI (year a)) (pI (year b)))
        (sortedWatchlist lc pI ms YEAR_ASC f g))
   \<and> mset (sortedWatchlist lc pI ms YEAR_DESC f g) = mset (sortedWatchlist lc pI ms YEAR_ASC f g)
   \<and> (pI (year a) = NaN \<or> pI (year b) = NaN \<longrightarrow>
        SortCompare (watchlistCompare lc pI YEAR_DESC) a b = Fin 0
        \<and> SortCompare (watchlistCompare lc pI YEAR_ASC) a b = Fin 0)"
proof (intro conjI impI)
  assume "\<forall>m \<in> set (sortedWatchlist lc pI ms YEAR_DESC f g). pI (year m) \<noteq> NaN"
  then show "sorted_wrt (\<lambda>a b. number_le (pI (year b)) (pI (year a)))
               (sortedWatchlist lc pI ms YEAR_DESC f g)"
    unfolding sortedWatchlist_eq set_js_sort by (rule js_sort_year_desc)
next
  assume "\<forall>m \<in> set (sortedWatchlist lc pI ms YEAR_ASC f g). pI (year m) \<noteq> NaN"
  then show "sorted_wrt (\<lambda>a b. number_le (pI (year a)) (pI (year b)))
               (sortedWatchlist lc pI ms YEAR_ASC f g)"
    unfolding sortedWatchlist_eq set_js_sort by (rule js_sort_year_asc)
next
  show "mset (sortedWatchlist lc pI ms YEAR_DESC f g) = mset (sortedWatchlist lc pI ms YEAR_ASC f g)"
    by (simp add: sortedWatchlist_eq mset_js_sort)
next
  assume n: "pI (year a) = NaN \<or> pI (year b) = NaN"
  show "SortCompare (watchlistCompare lc pI YEAR_DESC) a b = Fin 0"
    using n by (rule SortCompare_year_NaN(1))
  show "SortCompare (watchlistCompare lc pI YEAR_ASC) a b = Fin 0"
    using n by (rule SortCompare_year_NaN(2))
qed

theorem year_sort_orders_parsable_years_witness:
  "sortedWatchlist exLocaleCompare parseInt_utf8
     [exMovie ''x'' ''1990'' False, exMovie ''y'' ''2000'' False] YEAR_DESC FilterALL ''ALL''
     = [exMovie ''y'' ''2000'' False, exMovie ''x'' ''1990'' False]
   \<and> sortedWatchlist exLocaleCompare parseInt_utf8
     [exMovie ''y'' ''2000'' False, exMovie ''x'' ''1990'' False] YEAR_ASC FilterALL ''ALL''
     = [exMovie ''x'' ''1990'' False, exMovie ''y'' ''2000'' False]
   \<and> parseInt_utf8 (year (exMovie ''x'' ''1990'' False)) \<noteq> NaN
   \<and> parseInt_utf8 (year (exMovie ''y'' ''2000'' False)) \<noteq> NaN
   \<and> parseInt_utf8 (year (exMovie ''z'' ''N/A'' False)) = NaN
   \<and> SortCompare (watchlistCompare exLocaleCompare parseInt_utf8 YEAR_DESC)
        (exMovie ''z'' ''N/A'' False) (exMovie ''y'' ''2000'' False) = Fin 0"
  using year_sort_orders_parsable_years
          [of exLocaleCompare parseInt_utf8
              "[exMovie ''x'' ''1990'' False, exMovie ''y'' ''2000'' False]"
              FilterALL "''ALL''" "exMovie ''z'' ''N/A'' False" "exMovie ''y'' ''2000'' False"]
  by (simp add: sortedWatchlist_def rawWatchList_def js_sort_def SortCompare_def
        watchlistCompare_def round_double_def exMovie_def parseInt_2000 parseInt_1990
        parseInt_NA)

text \<open>
  Claim C7 as stated fails. Under \<open>YEAR_DESC\<close> the entry with year "N/A" stays in
  front of the entry with year "2000" (the comparator is \<open>NaN\<close> both ways, and the sort
  is stable), where the claim puts it after every entry with a numeric year. And the
  comparator is not consistent: "2000" and "N/A" compare as equal, "N/A" and "1990"
  compare as equal, but "2000" and "1990" do not.
\<close>

theorem year_sort_unparsable_counterexample:
  "sortedWatchlist exLocaleCompare parseInt_utf8
     [exMovie ''z'' ''N/A'' False, exMovie ''y'' ''2000'' False] YEAR_DESC FilterALL ''ALL''
     = [exMovie ''z'' ''N/A'' False, exMovie ''y'' ''2000'' False]
   \<and> SortCompare (watchlistCompare exLocaleCompare parseInt_utf8 YEAR_DESC)
        (exMovie ''y'' ''2000'' False) (exMovie ''z'' ''N/A'' False) = Fin 0
   \<and> SortCompare (watchlistCompare exLocaleCompare parseInt_utf8 YEAR_DESC)
        (exMovie ''z'' ''N/A'' False) (exMovie ''x'' ''1990'' False) = Fin 0
   \<and> SortCompare (watchlistCompare exLocaleCompare parseInt_utf8 YEAR_DESC)
        (exMovie ''y'' ''2000'' False) (exMovie ''x'' ''1990'' False) = Fin (- 10)"
  by (simp add: sortedWatchlist_def rawWatchList_def js_sort_def SortCompare_def
        watchlistCompare_def round_double_def exMovie_def parseInt_2000 parseInt_1990
        parseInt_NA)

section \<open>Recommendations\<close>

lemma mapResults_length: "length (mapResults results existing) \<le> 6"
  by (simp add: mapResults_def)

lemma mapResults_member:
  assumes "x \<in> set (mapResults results existing)"
  shows "Some (tmdbIdR x) \<notin> set (map tmdbId existing)"
    and "\<exists>p. posterPathR x = Some p \<and> p \<noteq> []"
proof -
  from assms obtain item where
    item: "item \<in> set (take 6 (filter (\<lambda>item. Some (item_id item) \<notin> set (map tmdbId existing)
             \<and> (case poster_path item of None \<Rightarrow> False | Some p \<Rightarrow> p \<noteq> [])) results))"
    and x: "x = toSearchResult item"
    by (auto simp: mapResults_def)
  from item have "item \<in> set (filter (\<lambda>item. Some (item_id item) \<notin> set (map tmdbId existing)
             \<and> (case poster_path item of None \<Rightarrow> False | Some p \<Rightarrow> p \<noteq> [])) results)"
    by (rule in_set_takeD)
  then have a: "Some (item_id item) \<notin> set (map tmdbId existing)"
    and b: "case poster_path item of None \<Rightarrow> False | Some p \<Rightarrow> p \<noteq> []"
    by simp_all
  from a x show "Some (tmdbIdR x) \<notin> set (map tmdbId existing)"
    by (simp add: toSearchResult_def)
  from b x show "\<exists>p. posterPathR x = Some p \<and> p \<noteq> []"
    by (cases "poster_path item") (simp_all add: toSearchResult_def)
qed

lemma getRecommendations_cases:
  "getRecommendations fetch r watched allMovies apiKey = []
   \<or> (\<exists>results. getRecommendations fetch r watched allMovies apiKey
                 = mapResults results allMovies)"
  by (auto simp: getRecommendations_def Let_def split: option.split)

text \<open>
  Claim C9. Whatever the provider answers, the list \<open>getRecommendations\<close> returns has
  at most 6 candidates; no candidate has the \<open>tmdbId\<close> of an entry of the full entry
  list; every candidate has a poster path (a string that is not empty).
\<close>

theorem getRecommendations_result:
  "length (getRecommendations fetch r watched allMovies apiKey) \<le> 6
   \<and> (\<forall>x \<in> set (getRecommendations fetch r watched allMovies apiKey).
        (\<forall>m \<in> set allMovies. tmdbId m \<noteq> Some (tmdbIdR x))
        \<and> (\<exists>p. posterPathR x = Some p \<and> p \<noteq> []))"
proof -
  consider "getRecommendations fetch r watched allMovies apiKey = []"
    | results where
        "getRecommendations fetch r watched allMovies apiKey = mapResults results allMovies"
    using getRecommendations_cases by blast
  then show ?thesis
  proof cases
    case 1
    then show ?thesis by simp
  next
    case 2
    have "\<forall>x \<in> set (mapResults results allMovies).
            (\<forall>m \<in> set allMovies. tmdbId m \<noteq> Some (tmdbIdR x))
            \<and> (\<exists>p. posterPathR x = Some p \<and> p \<noteq> [])"
    proof
      fix x assume x: "x \<in> set (mapResults results allMovies)"
      from mapResults_member(1) [OF x]
      have "\<forall>m \<in> set allMovies. tmdbId m \<noteq> Some (tmdbIdR x)"
        by (metis image_eqI set_map)
      with mapResults_member(2) [OF x]
      show "(\<forall>m \<in> set allMovies. tmdbId m \<noteq> Some (tmdbIdR x))
            \<and> (\<exists>p. posterPathR x = Some p \<and> p \<noteq> [])" by blast
    qed
    with 2 mapResults_length [of results allMovies] show ?thesis by simp
  qed
qed

theorem getRecommendations_result_witness:
  "map tmdbIdR (getRecommendations exFetch (rnd_of 0 1) []
                  [(exMovie ''a'' ''1999'' False)\<lparr>tmdbId := Some 9\<rparr>] ''key'') = [7]
   \<and> map posterPathR (getRecommendations exFetch (rnd_of 0 1) []
                  [(exMovie ''a'' ''1999'' False)\<lparr>tmdbId := Some 9\<rparr>] ''key'') = [Some ''/p7.jpg'']
   \<and> length (getRecommendations exFetch (rnd_of 0 1) []
                  [(exMovie ''a'' ''1999'' False)\<lparr>tmdbId := Some 9\<rparr>] ''key'') \<le> 6"
  using getRecommendations_result
          [of exFetch "rnd_of 0 1" "[]" "[(exMovie ''a'' ''1999'' False)\<lparr>tmdbId := Some 9\<rparr>]"
              "''key''"]
  by (simp add: getRecommendations_def mapResults_def exFetch_def exItem_def exMovie_def
        toSearchResult_def)

section \<open>The rating dialog\<close>

lemma stars_nth: "k < length stars \<Longrightarrow> 1 \<le> stars ! k \<and> stars ! k \<le> 5"
proof -
  assume "k < length stars"
  then have "stars ! k \<in> set stars" by (rule nth_mem)
  then show ?thesis by (auto simp: stars_def)
qed

lemma modal_ok_event:
  assumes "modal_ok movie st"
  shows "modal_ok movie (RatingModal_event movie st ev)"
proof (cases "isOpenS st")
  case False
  with assms show ?thesis by (simp add: RatingModal_event_def)
next
  case True
  show ?thesis
  proof (cases ev)
    case (StarClick k)
    with True assms stars_nth [of k] show ?thesis
      by (auto simp: RatingModal_event_def modal_ok_def)
  next
    case SubmitClick
    with True assms show ?thesis
      by (auto simp: RatingModal_event_def modal_ok_def)
  qed (use True assms in \<open>auto simp: RatingModal_event_def modal_ok_def\<close>)
qed

lemma modal_ok_run: "modal_ok movie (RatingModal_run movie evs)"
proof (induction evs rule: rev_induct)
  case Nil
  show ?case by (simp add: RatingModal_run_def RatingModal_init_def modal_ok_def)
next
  case (snoc e evs)
  then show ?case using modal_ok_event [of movie "RatingModal_run movie evs" e]
    by (simp add: RatingModal_run_def)
qed

text \<open>
  Claim C10. After any sequence of events on the dialog, every call of \<open>onSave\<close> it has
  made carries the id of its entry and a rating between 1 and 5. \<open>handleRateMovie\<close>
  itself makes no check: for every rating \<open>r\<close>, in range or not, it stores \<open>r\<close> in
  each entry with the given id.
\<close>

theorem RatingModal_saves_rating_in_range:
  "(\<forall>c \<in> set (onSaveCalls (RatingModal_run movie evs)).
      fst c = idM movie \<and> 1 \<le> fst (snd c) \<and> fst (snd c) \<le> 5)
   \<and> movies (handleRateMovie recId completedNow watchedNow toastId i r review s) =
       map (\<lambda>m. if idM m = i
                 then m\<lparr>isWatched := True, rating := Some r, userReview := Some review,
                        watchedAt := Some watchedNow\<rparr>
                 else m) (movies s)"
  using modal_ok_run [of movie evs]
  by (simp add: modal_ok_def handleRateMovie_movies)

theorem RatingModal_saves_rating_in_range_witness:
  "onSaveCalls (RatingModal_run (exMovie ''a'' ''1999'' False)
                  [SubmitClick, StarClick 3, ReviewChange ''ok'', SubmitClick, StarClick 0])
   = [(''a'', 4, ''ok'')]
   \<and> map rating (movies (handleRateMovie ''r'' 10 11 ''t'' ''a'' 9 ''ok''
                           (exApp [exMovie ''a'' ''1999'' False] None []))) = [Some 9]"
  using RatingModal_saves_rating_in_range
          [of "exMovie ''a'' ''1999'' False"
              "[SubmitClick, StarClick 3, ReviewChange ''ok'', SubmitClick, StarClick 0]"
              "''r''" 10 11 "''t''" "''a''" 9 "''ok''" "exApp [exMovie ''a'' ''1999'' False] None []"]
  by (simp add: RatingModal_run_def RatingModal_init_def RatingModal_event_def stars_def
        exMovie_def exApp_def)

section \<open>Battle\<close>

lemma handleBattlePick_movies: "movies (handleBattlePick r w s) = movies s"
  by (simp add: handleBattlePick_def Let_def split: option.split prod.split)

lemma third_contender:
  assumes "3 \<le> card (idM ` set (filter (\<lambda>m. \<not> isWatched m) ms))"
    and that: "x = y \<or> x = z"
  shows "filter (\<lambda>m. \<not> isWatched m \<and> idM m \<noteq> x \<and> idM m \<noteq> y \<and> idM m \<noteq> z) ms \<noteq> []"
proof -
  let ?S = "idM ` set (filter (\<lambda>m. \<not> isWatched m) ms)"
  have "card {y, z} \<le> 2" by (simp add: card_insert_if)
  then have "card {y, z} < card ?S" using assms(1) by linarith
  then have "\<not> ?S \<subseteq> {y, z}"
    using card_mono [of "{y, z}" ?S] by fastforce
  then obtain m where "m \<in> set ms" "\<not> isWatched m" "idM m \<noteq> y" "idM m \<noteq> z"
    by auto
  with that
  have "m \<in> set (filter (\<lambda>m. \<not> isWatched m \<and> idM m \<noteq> x \<and> idM m \<noteq> y \<and> idM m \<noteq> z) ms)"
    by auto
  then show ?thesis by (metis empty_iff list.set(1))
qed

lemma handleBattlePick_continues:
  assumes pool: "3 \<le> card (idM ` set (filter (\<lambda>m. \<not> isWatched m) (movies s)))"
    and pair: "battleMovies s = Some (b0, b1)" and w: "w = b0 \<or> w = b1"
  shows "battleMovies (handleBattlePick r w s) \<noteq> None"
    and "randomMovie (handleBattlePick r w s) = randomMovie s"
proof -
  have "filter (\<lambda>m. \<not> isWatched m \<and> idM m \<noteq> idM w \<and> idM m \<noteq> idM b0 \<and> idM m \<noteq> idM b1)
          (movies s) \<noteq> []"
    using third_contender [OF pool, of "idM w" "idM b0" "idM b1"] w by auto
  then show "battleMovies (handleBattlePick r w s) \<noteq> None"
    and "randomMovie (handleBattlePick r w s) = randomMovie s"
    using pair by (simp_all add: handleBattlePick_def Let_def)
qed

lemma battle_continues:
  assumes "3 \<le> card (idM ` set (filter (\<lambda>m. \<not> isWatched m) (movies s)))"
    and "battleMovies s \<noteq> None"
  shows "battleMovies (battle rounds s) \<noteq> None \<and> randomMovie (battle rounds s) = randomMovie s"
  using assms
proof (induction rounds arbitrary: s)
  case Nil
  then show ?case by simp
next
  case (Cons pr rounds)
  obtain p r where pr: "pr = (p, r)" by (cases pr)
  from Cons.prems(2) obtain b0 b1 where pair: "battleMovies s = Some (b0, b1)" by auto
  let ?w = "case p of PickFirst \<Rightarrow> b0 | PickSecond \<Rightarrow> b1"
  have w: "?w = b0 \<or> ?w = b1" by (cases p) simp_all
  let ?s = "handleBattlePick r ?w s"
  have "3 \<le> card (idM ` set (filter (\<lambda>m. \<not> isWatched m) (movies ?s)))"
    using Cons.prems(1) by (simp add: handleBattlePick_movies)
  moreover have "battleMovies ?s \<noteq> None"
    using handleBattlePick_continues(1) [OF Cons.prems(1) pair w] .
  ultimately have "battleMovies (battle rounds ?s) \<noteq> None
                   \<and> randomMovie (battle rounds ?s) = randomMovie ?s"
    by (rule Cons.IH)
  moreover have "randomMovie ?s = randomMovie s"
    using handleBattlePick_continues(2) [OF Cons.prems(1) pair w] .
  ultimately show ?case using pr pair by simp
qed

lemma resample_Some:
  assumes "resample n idx1 idx2 rs = Some j" and "0 < n" and "idx2 < n"
  shows "j \<noteq> idx1 \<and> j < n"
  using assms
proof (induction rs arbitrary: idx2)
  case Nil
  then show ?case by (simp split: if_splits)
next
  case (Cons r rs)
  show ?case
  proof (cases "idx1 = idx2")
    case True
    with Cons.prems have "resample n idx1 (random_index r n) rs = Some j" by simp
    then show ?thesis
      using Cons.IH [of "random_index r n"] Cons.prems(2) random_index_less by blast
  next
    case False
    with Cons.prems show ?thesis by simp
  qed
qed

text \<open>
  With exactly two not-watched entries the battle does end: the opening pair is the two
  entries, no candidate is left after the first click, and the clicked entry becomes the
  selection.
\<close>

lemma battle_of_two_ends:
  assumes two: "filter (\<lambda>m. \<not> isWatched m) (movies s) = [a, b]"
    and start: "startBattle uuid r1 r2 rs s = Some s'"
  shows "battleMovies (battle [(p, r)] s') = None
         \<and> (randomMovie (battle [(p, r)] s') = Some a
             \<or> randomMovie (battle [(p, r)] s') = Some b)"
proof -
  let ?n = "Suc (Suc 0)"
  let ?i = "random_index r1 ?n"
  from start two obtain j where j: "resample ?n ?i (random_index r2 ?n) rs = Some j"
    and s': "s' = s\<lparr>battleMovies := Some ([a, b] ! ?i, [a, b] ! j)\<rparr>"
    by (auto simp: startBattle_def Let_def split: option.splits)
  have i2: "?i < ?n" by (simp add: random_index_less)
  have "j \<noteq> ?i \<and> j < ?n"
    using resample_Some [OF j] by (simp add: random_index_less)
  with i2 have pair: "(?i = 0 \<and> j = 1) \<or> (?i = 1 \<and> j = 0)" by linarith
  have empty: "filter (\<lambda>m. \<not> isWatched m \<and> idM m \<noteq> x \<and> idM m \<noteq> idM a \<and> idM m \<noteq> idM b)
                 (movies s) = []"
    and empty': "filter (\<lambda>m. \<not> isWatched m \<and> idM m \<noteq> x \<and> idM m \<noteq> idM b \<and> idM m \<noteq> idM a)
                 (movies s) = []" for x
  proof -
    have "filter (\<lambda>m. idM m \<noteq> x \<and> idM m \<noteq> idM a \<and> idM m \<noteq> idM b)
            (filter (\<lambda>m. \<not> isWatched m) (movies s)) = []"
      unfolding two by simp
    then show "filter (\<lambda>m. \<not> isWatched m \<and> idM m \<noteq> x \<and> idM m \<noteq> idM a \<and> idM m \<noteq> idM b)
                 (movies s) = []"
      by (simp add: conj_commute)
    have "filter (\<lambda>m. idM m \<noteq> x \<and> idM m \<noteq> idM b \<and> idM m \<noteq> idM a)
            (filter (\<lambda>m. \<not> isWatched m) (movies s)) = []"
      unfolding two by simp
    then show "filter (\<lambda>m. \<not> isWatched m \<and> idM m \<noteq> x \<and> idM m \<noteq> idM b \<and> idM m \<noteq> idM a)
                 (movies s) = []"
      by (simp add: conj_commute)
  qed
  from pair show ?thesis
  proof
    assume "?i = 0 \<and> j = 1"
    then have "battleMovies s' = Some (a, b)" using s' by simp
    then show ?thesis using s' empty
      by (cases p) (simp_all add: handleBattlePick_def Let_def)
  next
    assume "?i = 1 \<and> j = 0"
    then have "battleMovies s' = Some (b, a)" using s' by simp
    then show ?thesis using s' empty'
      by (cases p) (simp_all add: handleBattlePick_def Let_def)
  qed
qed

lemma startBattle_started:
  assumes "startBattle uuid r1 r2 rs s = Some s'"
    and "2 \<le> length (filter (\<lambda>m. \<not> isWatched m) (movies s))"
  shows "battleMovies s' \<noteq> None" and "movies s' = movies s" and "randomMovie s' = randomMovie s"
  using assms by (auto simp: startBattle_def Let_def split: option.splits)

text \<open>
  Claim C3 fails on the code. When the not-watched pool holds entries with at least
  three different ids, a battle started by \<open>startBattle\<close> is still running after any
  number of rounds, whatever cards are clicked and whatever is drawn: the candidates of
  \<open>handleBattlePick\<close> leave out only the current pair, so an entry that lost an earlier
  round is a candidate again, the list of candidates is never empty, and no final
  selection (\<open>randomMovie\<close>) is made.
\<close>

theorem battle_never_ends:
  assumes "3 \<le> card (idM ` set (filter (\<lambda>m. \<not> isWatched m) (movies s)))"
    and "startBattle uuid r1 r2 rs s = Some s'"
  shows "battleMovies (battle rounds s') \<noteq> None
         \<and> randomMovie (battle rounds s') = randomMovie s"
proof -
  let ?pool = "filter (\<lambda>m. \<not> isWatched m) (movies s)"
  have "card (idM ` set ?pool) \<le> card (set ?pool)"
    by (rule card_image_le) simp
  also have "\<dots> \<le> length ?pool" by (rule card_length)
  finally have "2 \<le> length ?pool" using assms(1) by linarith
  note st = startBattle_started [OF assms(2) this]
  have "3 \<le> card (idM ` set (filter (\<lambda>m. \<not> isWatched m) (movies s')))"
    using assms(1) st(2) by simp
  from battle_continues [OF this st(1), of rounds] st(3) show ?thesis by simp
qed

theorem battle_never_ends_witness:
  "3 \<le> card (idM ` set (filter (\<lambda>m. \<not> isWatched m)
         (movies (exApp [exMovie ''a'' ''1999'' False, exMovie ''b'' ''2001'' False,
                         exMovie ''c'' ''2005'' False] None []))))
   \<and> startBattle ''t'' (rnd_of 0 1) (rnd_of 0 1) [rnd_of 1 2]
       (exApp [exMovie ''a'' ''1999'' False, exMovie ''b'' ''2001'' False,
               exMovie ''c'' ''2005'' False] None [])
     = Some ((exApp [exMovie ''a'' ''1999'' False, exMovie ''b'' ''2001'' False,
                     exMovie ''c'' ''2005'' False] None [])
               \<lparr>battleMovies := Some (exMovie ''a'' ''1999'' False, exMovie ''b'' ''2001'' False)\<rparr>)
   \<and> battleMovies
       (battle [(PickFirst, rnd_of 0 1), (PickSecond, rnd_of 0 1)]
          ((exApp [exMovie ''a'' ''1999'' False, exMovie ''b'' ''2001'' False,
                   exMovie ''c'' ''2005'' False] None [])
             \<lparr>battleMovies := Some (exMovie ''a'' ''1999'' False, exMovie ''b'' ''2001'' False)\<rparr>))
     \<noteq> None"
proof -
  let ?s = "exApp [exMovie ''a'' ''1999'' False, exMovie ''b'' ''2001'' False,
                   exMovie ''c'' ''2005'' False] None []"
  let ?s' = "?s\<lparr>battleMovies := Some (exMovie ''a'' ''1999'' False, exMovie ''b'' ''2001'' False)\<rparr>"
  have pool: "3 \<le> card (idM ` set (filter (\<lambda>m. \<not> isWatched m) (movies ?s)))"
    by (simp add: exApp_def exMovie_def)
  have start: "startBattle ''t'' (rnd_of 0 1) (rnd_of 0 1) [rnd_of 1 2] ?s = Some ?s'"
    by (simp add: startBattle_def exApp_def exMovie_def random_index_rnd_of Let_def)
  from battle_never_ends [OF pool start, of "[(PickFirst, rnd_of 0 1), (PickSecond, rnd_of 0 1)]"]
    pool start
  show ?thesis by simp
qed

end
